theory Spec2Isabelle
  imports Complex_Main "HOL-Library.Word"
begin

section \<open>Custom learned optimizer architectures (Part 6 of the tutorial notebooks)\<close>

text \<open>
  The notebook defines three learned optimizers on top of JAX, Haiku and the
  \<^verbatim>\<open>learned_optimization\<close> base classes: \<^verbatim>\<open>MetaSGDWD\<close>, \<^verbatim>\<open>PerParamMLP\<close> and
  \<^verbatim>\<open>HParamControllerLOPT\<close>. Each has an outer \<^verbatim>\<open>init(key)\<close> producing the meta-parameters
  \<^verbatim>\<open>theta\<close> and an \<^verbatim>\<open>opt_fn(theta)\<close> returning an inner optimizer \<^verbatim>\<open>_Opt\<close> with
  \<^verbatim>\<open>init\<close> and \<^verbatim>\<open>update\<close>.

  The embedding keeps the notebook's own code as HOL functions. What the notebook calls
  in JAX (\<^verbatim>\<open>jnp\<close> arithmetic with broadcasting, \<^verbatim>\<open>jax.tree_map\<close>) is modelled below as far
  as the notebook uses it; array elements are real numbers, so rounding of floating point
  numbers is outside the model. The Haiku networks (\<^verbatim>\<open>hk.nets.MLP\<close>, \<^verbatim>\<open>hk.LSTM\<close>,
  \<^verbatim>\<open>hk.Linear\<close>) are parameters of the functions that call them.
\<close>

subsection \<open>Exceptions\<close>

text \<open>
  Every Python exception is a value. \<open>KeyError\<close>: a missing dictionary key.
  \<open>AssertionError\<close>: a failed \<^verbatim>\<open>assert\<close>. \<open>StructureError\<close>: \<^verbatim>\<open>jax.tree_map\<close>
  rejecting trees of different structure. \<open>ShapeError\<close>: array shapes that an operation
  does not accept. \<open>TypeError\<close>: an operand of array arithmetic that is not an array.
  \<open>IndexError\<close>: an index out of range. \<open>AttributeError\<close>: an attribute that the value
  does not have.
\<close>

datatype error =
  KeyError | AssertionError | StructureError | ShapeError | TypeError | IndexError | AttributeError

type_synonym 'a result = "error + 'a"

definition bind :: "'a result \<Rightarrow> ('a \<Rightarrow> 'b result) \<Rightarrow> 'b result" where
  "bind m f = (case m of Inl e \<Rightarrow> Inl e | Inr x \<Rightarrow> f x)"

text \<open>A list of results evaluated from left to right: the first exception wins.\<close>

fun sequence :: "'a result list \<Rightarrow> 'a list result" where
  "sequence [] = Inr []"
| "sequence (m # ms) = bind m (\<lambda>x. bind (sequence ms) (\<lambda>xs. Inr (x # xs)))"

text \<open>\<^verbatim>\<open>d[k]\<close> on a dictionary.\<close>

definition getitem :: "('k \<rightharpoonup> 'v) \<Rightarrow> 'k \<Rightarrow> 'v result" where
  "getitem d k = (case d k of None \<Rightarrow> Inl KeyError | Some v \<Rightarrow> Inr v)"

subsection \<open>Arrays\<close>

text \<open>
  A numeric value is an array or a Python number. An array is its shape and its elements
  in row-major order, as many as the product of the shape. A Python number has the shape
  \<open>[]\<close> and one element, and \<open>py_scalar\<close> tells it from a zero-dimensional array: it
  takes part in array arithmetic like one, but it has no attribute \<^verbatim>\<open>shape\<close>, and
  arithmetic of two Python numbers gives a Python number. Element types are not told
  apart, and \<^verbatim>\<open>jnp.log\<close> of a number that is not positive (\<^verbatim>\<open>nan\<close> or \<^verbatim>\<open>-inf\<close> in JAX) is
  whatever \<open>ln\<close> is there.
\<close>

record ndarray =
  shape :: "nat list"
  elems :: "real list"
  py_scalar :: bool

text \<open>A Python number, such as \<^verbatim>\<open>1.0\<close> or \<^verbatim>\<open>parent.decay\<close>.\<close>

definition scalar :: "real \<Rightarrow> ndarray" where
  "scalar r = \<lparr>shape = [], elems = [r], py_scalar = True\<rparr>"

text \<open>\<^verbatim>\<open>a.shape\<close>: arrays have it, Python numbers do not.\<close>

definition shape_attr :: "ndarray \<Rightarrow> nat list result" where
  "shape_attr a = (if py_scalar a then Inl AttributeError else Inr (shape a))"

text \<open>The functions of \<^verbatim>\<open>jnp\<close> return arrays, also when given Python numbers.\<close>

definition zeros_like :: "ndarray \<Rightarrow> ndarray" where
  "zeros_like a =
     \<lparr>shape = shape a, elems = replicate (prod_list (shape a)) 0, py_scalar = False\<rparr>"

definition jexp :: "ndarray \<Rightarrow> ndarray" where
  "jexp a = \<lparr>shape = shape a, elems = map exp (elems a), py_scalar = False\<rparr>"

definition jlog :: "ndarray \<Rightarrow> ndarray" where
  "jlog a = \<lparr>shape = shape a, elems = map ln (elems a), py_scalar = False\<rparr>"

text \<open>
  Broadcasting, on shapes written last axis first: two axes are compatible when they are
  equal or one of them is 1, and a missing leading axis counts as 1.
\<close>

fun broadcast_rev :: "nat list \<Rightarrow> nat list \<Rightarrow> nat list option" where
  "broadcast_rev [] ys = Some ys"
| "broadcast_rev xs [] = Some xs"
| "broadcast_rev (x # xs) (y # ys) =
     (if x = y \<or> y = 1 then map_option ((#) x) (broadcast_rev xs ys)
      else if x = 1 then map_option ((#) y) (broadcast_rev xs ys)
      else None)"

definition broadcast_shapes :: "nat list \<Rightarrow> nat list \<Rightarrow> nat list option" where
  "broadcast_shapes s t = map_option rev (broadcast_rev (rev s) (rev t))"

text \<open>
  The position in the source array (shape \<open>ss\<close>, last axis first) of the element that
  lands at position \<open>i\<close> of the broadcast array (shape \<open>ts\<close>, last axis first).
\<close>

fun src_index :: "nat list \<Rightarrow> nat list \<Rightarrow> nat \<Rightarrow> nat" where
  "src_index (t # ts) (s # ss) i =
     (if s = 1 then 0 else i mod t) + s * src_index ts ss (i div t)"
| "src_index ts ss i = 0"

definition broadcast_to :: "nat list \<Rightarrow> ndarray \<Rightarrow> real list" where
  "broadcast_to sh a =
     map (\<lambda>i. elems a ! src_index (rev sh) (rev (shape a)) i) [0..<prod_list sh]"

definition binop :: "(real \<Rightarrow> real \<Rightarrow> real) \<Rightarrow> ndarray \<Rightarrow> ndarray \<Rightarrow> ndarray result" where
  "binop f a b =
     (case broadcast_shapes (shape a) (shape b) of
        None \<Rightarrow> Inl ShapeError
      | Some sh \<Rightarrow>
          Inr \<lparr>shape = sh, elems = map2 f (broadcast_to sh a) (broadcast_to sh b),
               py_scalar = (py_scalar a \<and> py_scalar b)\<rparr>)"

text \<open>
  The operators \<^verbatim>\<open>-\<close>, \<^verbatim>\<open>*\<close> and \<^verbatim>\<open>+\<close> of an expression: the left operand is evaluated
  first, then the right one, then the operation.
\<close>

definition jsub :: "ndarray result \<Rightarrow> ndarray result \<Rightarrow> ndarray result" where
  "jsub x y = bind x (\<lambda>a. bind y (\<lambda>b. binop (-) a b))"

definition jmul :: "ndarray result \<Rightarrow> ndarray result \<Rightarrow> ndarray result" where
  "jmul x y = bind x (\<lambda>a. bind y (\<lambda>b. binop (*) a b))"

definition jadd :: "ndarray result \<Rightarrow> ndarray result \<Rightarrow> ndarray result" where
  "jadd x y = bind x (\<lambda>a. bind y (\<lambda>b. binop (+) a b))"

text \<open>\<^verbatim>\<open>jnp.reshape(a, sh)\<close>: the same elements under a shape of the same size.\<close>

definition reshape :: "ndarray \<Rightarrow> nat list \<Rightarrow> ndarray result" where
  "reshape a sh =
     (if prod_list sh = prod_list (shape a)
      then Inr \<lparr>shape = sh, elems = elems a, py_scalar = False\<rparr>
      else Inl ShapeError)"

text \<open>
  \<^verbatim>\<open>jnp.asarray([a, b, c])\<close> on a list of arrays: the arrays must have one shape and are
  stacked along a new first axis.
\<close>

definition stack :: "ndarray list \<Rightarrow> ndarray result" where
  "stack xs =
     (case xs of
        [] \<Rightarrow> Inr \<lparr>shape = [0], elems = [], py_scalar = False\<rparr>
      | a # _ \<Rightarrow>
          if list_all (\<lambda>b. shape b = shape a) xs
          then Inr \<lparr>shape = length xs # shape a, elems = concat (map elems xs),
                    py_scalar = False\<rparr>
          else Inl ShapeError)"

text \<open>
  Multi-indices: \<open>unravel sh i\<close> is the multi-index of the flat position \<open>i\<close> in an array
  of shape \<open>sh\<close>, \<open>ravel sh idx\<close> the flat position of the multi-index \<open>idx\<close>.
\<close>

fun unravel_rev :: "nat list \<Rightarrow> nat \<Rightarrow> nat list" where
  "unravel_rev [] i = []"
| "unravel_rev (s # ss) i = (i mod s) # unravel_rev ss (i div s)"

definition unravel :: "nat list \<Rightarrow> nat \<Rightarrow> nat list" where
  "unravel sh i = rev (unravel_rev (rev sh) i)"

definition ravel :: "nat list \<Rightarrow> nat list \<Rightarrow> nat" where
  "ravel sh idx = foldl (\<lambda>acc (s, k). acc * s + k) 0 (zip sh idx)"

definition index_of :: "'a list \<Rightarrow> 'a \<Rightarrow> nat" where
  "index_of xs x = length (takeWhile (\<lambda>y. y \<noteq> x) xs)"

text \<open>
  \<^verbatim>\<open>jnp.transpose(a, axes)\<close>: \<open>axes\<close> must be a permutation of the axes of \<open>a\<close>; axis
  \<open>d\<close> of the result is axis \<open>axes ! d\<close> of \<open>a\<close>.
\<close>

definition jtranspose :: "ndarray \<Rightarrow> nat list \<Rightarrow> ndarray result" where
  "jtranspose a axes =
     (if sort axes = [0..<length (shape a)]
      then let sh = map ((!) (shape a)) axes
           in Inr \<lparr>shape = sh,
                   elems = map (\<lambda>i. let idx = unravel sh i
                                     in elems a ! ravel (shape a)
                                          (map (\<lambda>k. idx ! index_of axes k) [0..<length axes]))
                               [0..<prod_list sh],
                   py_scalar = False\<rparr>
      else Inl ShapeError)"

text \<open>\<^verbatim>\<open>a[..., k]\<close>: position \<open>k\<close> of the last axis.\<close>

definition index_last :: "ndarray \<Rightarrow> nat \<Rightarrow> ndarray result" where
  "index_last a k =
     (case rev (shape a) of
        [] \<Rightarrow> Inl IndexError
      | n # rsh \<Rightarrow>
          if k < n
          then Inr \<lparr>shape = rev rsh,
                    elems = map (\<lambda>i. elems a ! (i * n + k)) [0..<prod_list rsh],
                    py_scalar = False\<rparr>
          else Inl IndexError)"

subsection \<open>Trees of arrays\<close>

text \<open>
  A pytree is a leaf or a container node: a dictionary (its children in the order of the
  sorted keys, which the node carries), a list, a tuple or \<^verbatim>\<open>None\<close> (no children).
\<close>

datatype node_kind = DictNode "string list" | ListNode | TupleNode | NoneNode

datatype 'a pytree = Leaf 'a | Node node_kind "'a pytree list"

fun tree_leaves :: "'a pytree \<Rightarrow> 'a list" where
  "tree_leaves (Leaf x) = [x]"
| "tree_leaves (Node k ts) = concat (map tree_leaves ts)"

definition tree_structure :: "'a pytree \<Rightarrow> unit pytree" where
  "tree_structure t = map_pytree (\<lambda>_. ()) t"

text \<open>
  \<^verbatim>\<open>treedef.flatten_up_to(r)\<close>: the subtrees of \<open>r\<close> at the leaf positions of the first
  tree; \<open>None\<close> when \<open>r\<close> does not have the first tree as a prefix.
\<close>

fun flatten_up_to :: "'a pytree \<Rightarrow> 'b pytree \<Rightarrow> 'b pytree list option"
  and flatten_up_to_list :: "'a pytree list \<Rightarrow> 'b pytree list \<Rightarrow> 'b pytree list option" where
  "flatten_up_to (Leaf x) r = Some [r]"
| "flatten_up_to (Node k ts) (Leaf y) = None"
| "flatten_up_to (Node k ts) (Node k' rs) =
     (if k = k' then flatten_up_to_list ts rs else None)"
| "flatten_up_to_list [] [] = Some []"
| "flatten_up_to_list (t # ts) (r # rs) =
     (case flatten_up_to t r of
        None \<Rightarrow> None
      | Some xs \<Rightarrow> map_option ((@) xs) (flatten_up_to_list ts rs))"
| "flatten_up_to_list ts rs = None"

text \<open>\<^verbatim>\<open>treedef.unflatten(leaves)\<close>: the tree of the given structure over the given leaves.\<close>

fun tree_unflatten :: "'a pytree \<Rightarrow> 'b list \<Rightarrow> 'b pytree result"
  and tree_unflatten_list :: "'a pytree list \<Rightarrow> 'b list \<Rightarrow> 'b pytree list result" where
  "tree_unflatten (Leaf x) ys = (case ys of [y] \<Rightarrow> Inr (Leaf y) | _ \<Rightarrow> Inl StructureError)"
| "tree_unflatten (Node k ts) ys = bind (tree_unflatten_list ts ys) (\<lambda>us. Inr (Node k us))"
| "tree_unflatten_list [] ys = (case ys of [] \<Rightarrow> Inr [] | _ \<Rightarrow> Inl StructureError)"
| "tree_unflatten_list (t # ts) ys =
     bind (tree_unflatten t (take (length (tree_leaves t)) ys)) (\<lambda>u.
     bind (tree_unflatten_list ts (drop (length (tree_leaves t)) ys)) (\<lambda>us. Inr (u # us)))"

text \<open>
  \<^verbatim>\<open>jax.tree_map(f, tree, rest)\<close> flattens \<open>tree\<close>, flattens \<open>rest\<close> up to the structure of
  \<open>tree\<close> (raising when it does not fit), calls \<open>f\<close> on the leaves in order and rebuilds
  the tree. \<open>f\<close> receives a leaf of \<open>tree\<close> and the subtree of \<open>rest\<close> at its position.
\<close>

definition tree_map2 ::
  "('a \<Rightarrow> 'b pytree \<Rightarrow> 'c result) \<Rightarrow> 'a pytree \<Rightarrow> 'b pytree \<Rightarrow> 'c pytree result" where
  "tree_map2 f t r =
     (case flatten_up_to t r of
        None \<Rightarrow> Inl StructureError
      | Some rs \<Rightarrow> bind (sequence (map2 f (tree_leaves t) rs)) (tree_unflatten t))"

definition tree_map3 ::
  "('a \<Rightarrow> 'b pytree \<Rightarrow> 'c pytree \<Rightarrow> 'd result) \<Rightarrow>
     'a pytree \<Rightarrow> 'b pytree \<Rightarrow> 'c pytree \<Rightarrow> 'd pytree result" where
  "tree_map3 f t r1 r2 =
     (case flatten_up_to t r1 of
        None \<Rightarrow> Inl StructureError
      | Some rs1 \<Rightarrow>
         (case flatten_up_to t r2 of
            None \<Rightarrow> Inl StructureError
          | Some rs2 \<Rightarrow>
             bind (sequence (map (\<lambda>(x, y, z). f x y z) (zip (tree_leaves t) (zip rs1 rs2))))
                  (tree_unflatten t)))"

text \<open>
  An operand of array arithmetic: a leaf is the array it holds, a container (the subtree
  that \<^verbatim>\<open>jax.tree_map\<close> hands over when \<open>rest\<close> is deeper than \<open>tree\<close>) is no array, and
  arithmetic of an array with a dictionary, a list, a tuple or \<^verbatim>\<open>None\<close> raises. Every leaf
  function of the notebook uses each of its arguments as such an operand; the model
  raises at the first use.
\<close>

fun as_array :: "ndarray pytree \<Rightarrow> ndarray result" where
  "as_array (Leaf a) = Inr a"
| "as_array (Node k ts) = Inl TypeError"

subsection \<open>Meta-learnable hyper parameters: \<^verbatim>\<open>MetaSGDWD\<close>\<close>

text \<open>
  The iteration counter is \<^verbatim>\<open>jnp.asarray(0, dtype=jnp.int32)\<close>, a 32-bit integer whose
  addition wraps around. \<^verbatim>\<open>model_state\<close> is any value or Python's \<^verbatim>\<open>None\<close>. The three
  state dataclasses are three records with fields of the same names; a field of an
  earlier record is written with the record's name (\<open>LOptState.params\<close>). The arguments
  that the notebook calls \<^verbatim>\<open>params\<close> and \<^verbatim>\<open>model_state\<close> are \<open>params0\<close> and
  \<open>model_state0\<close> here, the plain names being the fields'.
\<close>

record 'm LOptState =
  params :: "ndarray pytree"
  model_state :: "'m option"
  iteration :: "32 word"

text \<open>
  A record cannot be asked for the names of its fields, so the fields that each state
  dataclass declares are kept as a list of names as well, in the order of declaration.
\<close>

definition LOptState_fields :: "string list" where
  "LOptState_fields = [''params'', ''model_state'', ''iteration'']"

record MetaSGDWD =
  initial_lr :: real
  initial_wd :: real

definition MetaSGDWD_init :: "MetaSGDWD \<Rightarrow> 'key \<Rightarrow> (string \<rightharpoonup> ndarray)" where
  "MetaSGDWD_init self key =
     [''log_lr'' \<mapsto> jlog (scalar (initial_lr self)),
      ''log_wd'' \<mapsto> jlog (scalar (initial_wd self))]"

definition MetaSGDWD_Opt_init :: "ndarray pytree \<Rightarrow> 'm option \<Rightarrow> 'm LOptState" where
  "MetaSGDWD_Opt_init params0 model_state0 =
     \<lparr>params = params0, model_state = model_state0, iteration = 0\<rparr>"

text \<open>\<^verbatim>\<open>_update_one(p, g)\<close>: \<^verbatim>\<open>p - g * lr - p * wd\<close>.\<close>

definition MetaSGDWD_update_one ::
  "ndarray \<Rightarrow> ndarray \<Rightarrow> ndarray \<Rightarrow> ndarray pytree \<Rightarrow> ndarray result" where
  "MetaSGDWD_update_one lr wd p g =
     jsub (jsub (Inr p) (jmul (as_array g) (Inr lr))) (jmul (Inr p) (Inr wd))"

definition MetaSGDWD_Opt_update ::
  "(string \<rightharpoonup> ndarray) \<Rightarrow> 'm LOptState \<Rightarrow> ndarray pytree \<Rightarrow> 'm option \<Rightarrow> 'm LOptState result" where
  "MetaSGDWD_Opt_update theta opt_state grads model_state0 =
     bind (getitem theta ''log_lr'') (\<lambda>log_lr.
     bind (getitem theta ''log_wd'') (\<lambda>log_wd.
     bind (tree_map2 (MetaSGDWD_update_one (jexp log_lr) (jexp log_wd)) (params opt_state) grads)
       (\<lambda>next_params.
     Inr \<lparr>params = next_params, model_state = model_state0,
          iteration = iteration opt_state + 1\<rparr>)))"

subsection \<open>Per parameter learned optimizer: \<^verbatim>\<open>PerParamMLP\<close>\<close>

record 'm PerParamState =
  params :: "ndarray pytree"
  model_state :: "'m option"
  iteration :: "32 word"
  momentums :: "ndarray pytree"

definition PerParamState_fields :: "string list" where
  "PerParamState_fields = [''params'', ''model_state'', ''iteration'', ''momentums'']"

text \<open>
  The learned optimizer object: \<^verbatim>\<open>decay\<close>, \<^verbatim>\<open>hidden_size\<close> and the network. The
  parameter \<open>mlp\<close> is \<^verbatim>\<open>hk.nets.MLP(output_sizes)\<close> applied to its weights and its input.

  \<^verbatim>\<open>forward(grads, momentum, params)\<close> is the function under \<^verbatim>\<open>hk.transform\<close>; \<open>w\<close> are
  the weights that \<^verbatim>\<open>net.apply\<close> passes in. It reads \<^verbatim>\<open>grads.shape\<close> after building the
  features, which raises when \<^verbatim>\<open>grads\<close> is a Python number.
\<close>

record PerParamMLP =
  decay :: real
  hidden_size :: nat

definition forward ::
  "(nat list \<Rightarrow> 'w \<Rightarrow> ndarray \<Rightarrow> ndarray result) \<Rightarrow> PerParamMLP \<Rightarrow> 'w \<Rightarrow>
     ndarray \<Rightarrow> ndarray pytree \<Rightarrow> ndarray pytree \<Rightarrow> ndarray result" where
  "forward mlp self w grads momentum params0 =
     bind (bind (sequence [as_array params0, as_array momentum, Inr grads]) stack) (\<lambda>features0.
     bind (shape_attr grads) (\<lambda>grads_shape.
     bind (jtranspose features0 ([1..<1 + length grads_shape] @ [0])) (\<lambda>features.
     bind (mlp [hidden_size self, 2] w features) (\<lambda>outs.
     bind (index_last outs 0) (\<lambda>scale.
     bind (index_last outs 1) (\<lambda>mag.
     jmul (jmul (Inr scale) (Inr (scalar (1 / 100))))
          (map_sum id jexp (jmul (Inr mag) (Inr (scalar (1 / 100)))))))))))"

definition PerParamMLP_Opt_init :: "ndarray pytree \<Rightarrow> 'm option \<Rightarrow> 'm PerParamState" where
  "PerParamMLP_Opt_init params0 model_state0 =
     (let momentums0 = map_pytree zeros_like params0
      in \<lparr>params = params0, model_state = model_state0, iteration = 0,
          momentums = momentums0\<rparr>)"

text \<open>\<^verbatim>\<open>_update_one_momentum(m, g)\<close>: \<^verbatim>\<open>m * parent.decay + (g * (1 - parent.decay))\<close>.\<close>

definition update_one_momentum :: "PerParamMLP \<Rightarrow> ndarray \<Rightarrow> ndarray pytree \<Rightarrow> ndarray result" where
  "update_one_momentum parent m g =
     jadd (jmul (Inr m) (Inr (scalar (decay parent))))
          (jmul (as_array g) (Inr (scalar (1 - decay parent))))"

text \<open>
  \<^verbatim>\<open>_update_one(g, m, p)\<close>: \<^verbatim>\<open>step = parent.net.apply(theta["nn"], g, m, p)\<close>, then
  \<^verbatim>\<open>p - step\<close>. The arguments keep the names the notebook gives them.
\<close>

definition PerParamMLP_update_one ::
  "(nat list \<Rightarrow> 'w \<Rightarrow> ndarray \<Rightarrow> ndarray result) \<Rightarrow> PerParamMLP \<Rightarrow> (string \<rightharpoonup> 'w) \<Rightarrow>
     ndarray \<Rightarrow> ndarray pytree \<Rightarrow> ndarray pytree \<Rightarrow> ndarray result" where
  "PerParamMLP_update_one mlp parent theta g m p =
     bind (bind (getitem theta ''nn'') (\<lambda>w. forward mlp parent w g m p)) (\<lambda>step.
     jsub (as_array p) (Inr step))"

text \<open>
  \<^verbatim>\<open>update\<close>: the two calls are
  \<^verbatim>\<open>jax.tree_map(_update_one_momentum, opt_state.momentums, grads)\<close> and
  \<^verbatim>\<open>jax.tree_map(_update_one, opt_state.params, grads, next_moms)\<close>.
\<close>

definition PerParamMLP_Opt_update ::
  "(nat list \<Rightarrow> 'w \<Rightarrow> ndarray \<Rightarrow> ndarray result) \<Rightarrow> PerParamMLP \<Rightarrow> (string \<rightharpoonup> 'w) \<Rightarrow>
     'm PerParamState \<Rightarrow> ndarray pytree \<Rightarrow> 'm option \<Rightarrow> 'm PerParamState result" where
  "PerParamMLP_Opt_update mlp parent theta opt_state grads model_state0 =
     bind (tree_map2 (update_one_momentum parent) (momentums opt_state) grads) (\<lambda>next_moms.
     bind (tree_map3 (PerParamMLP_update_one mlp parent theta) (params opt_state) grads next_moms)
       (\<lambda>next_params.
     Inr \<lparr>params = next_params, model_state = model_state0,
          iteration = iteration opt_state + 1, momentums = next_moms\<rparr>))"

subsection \<open>Meta-learned RNN controller: \<^verbatim>\<open>HParamControllerLOPT\<close>\<close>

record ('m, 'v) HParamControllerInnerOptState =
  params :: "ndarray pytree"
  model_state :: "'m option"
  iteration :: "32 word"
  rnn_hidden_state :: 'v

definition HParamControllerInnerOptState_fields :: "string list" where
  "HParamControllerInnerOptState_fields =
     [''params'', ''model_state'', ''iteration'', ''rnn_hidden_state'']"

text \<open>
  \<^verbatim>\<open>forward_fn(hidden_state, input)\<close> under \<^verbatim>\<open>hk.transform\<close>, applied to the weights \<open>w\<close>.
  The parameter \<open>lstm_mod\<close> is \<^verbatim>\<open>hk.LSTM(hidden_size)\<close> applied to its weights, its input and
  the previous state, returning the output and the next state; \<open>linear_mod\<close> is
  \<^verbatim>\<open>hk.Linear(output_size)\<close> applied to its weights and its input.
\<close>

definition forward_fn ::
  "(nat \<Rightarrow> 'v \<Rightarrow> ndarray \<Rightarrow> 'v \<Rightarrow> (ndarray \<times> 'v) result) \<Rightarrow>
   (nat \<Rightarrow> 'v \<Rightarrow> ndarray \<Rightarrow> ndarray result) \<Rightarrow>
     'v \<Rightarrow> 'v \<Rightarrow> ndarray \<Rightarrow> ('v \<times> ndarray) result" where
  "forward_fn lstm_mod linear_mod w hidden_state input =
     bind (lstm_mod 128 w input hidden_state) (\<lambda>(output, next_state).
     bind (linear_mod 1 w output) (\<lambda>log_lr.
     bind (jmul (Inr (jexp log_lr)) (Inr (scalar (1 / 100)))) (\<lambda>lr.
     Inr (next_state, lr))))"

definition HParamControllerLOPT_Opt_init ::
  "(string \<rightharpoonup> 'v) \<Rightarrow> ndarray pytree \<Rightarrow> 'm option \<Rightarrow>
     ('m, 'v) HParamControllerInnerOptState result" where
  "HParamControllerLOPT_Opt_init theta params0 model_state0 =
     bind (getitem theta ''initial_rnn_hidden_state'') (\<lambda>h.
     Inr \<lparr>params = params0, model_state = model_state0, iteration = 0,
          rnn_hidden_state = h\<rparr>)"

text \<open>\<^verbatim>\<open>update_one(p, g)\<close>: \<^verbatim>\<open>p - g * lr\<close>.\<close>

definition HParamControllerLOPT_update_one ::
  "ndarray \<Rightarrow> ndarray \<Rightarrow> ndarray pytree \<Rightarrow> ndarray result" where
  "HParamControllerLOPT_update_one lr p g = jsub (Inr p) (jmul (as_array g) (Inr lr))"

definition HParamControllerLOPT_Opt_update ::
  "(nat \<Rightarrow> 'v \<Rightarrow> ndarray \<Rightarrow> 'v \<Rightarrow> (ndarray \<times> 'v) result) \<Rightarrow>
   (nat \<Rightarrow> 'v \<Rightarrow> ndarray \<Rightarrow> ndarray result) \<Rightarrow> (string \<rightharpoonup> 'v) \<Rightarrow>
     ('m, 'v) HParamControllerInnerOptState \<Rightarrow> ndarray pytree \<Rightarrow> ndarray option \<Rightarrow> 'm option \<Rightarrow>
     ('m, 'v) HParamControllerInnerOptState result" where
  "HParamControllerLOPT_Opt_update lstm_mod linear_mod theta opt_state grads loss model_state0 =
     (case loss of
        None \<Rightarrow> Inl AssertionError
      | Some l \<Rightarrow>
          bind (reshape l [1, 1]) (\<lambda>batched_loss.
          bind (getitem theta ''rnn_params'') (\<lambda>w.
          bind (forward_fn lstm_mod linear_mod w (rnn_hidden_state opt_state) batched_loss)
            (\<lambda>(next_rnn_state, lr).
          bind (tree_map2 (HParamControllerLOPT_update_one lr) (params opt_state) grads)
            (\<lambda>next_params.
          Inr \<lparr>params = next_params, model_state = model_state0,
               iteration = iteration opt_state + 1,
               rnn_hidden_state = next_rnn_state\<rparr>)))))"

subsection \<open>The state dataclasses' fields\<close>

text \<open>The three fields that all state dataclasses declare, and the fields beyond them.\<close>

definition common_fields :: "string list" where
  "common_fields = [''params'', ''model_state'', ''iteration'']"

definition extra_fields :: "string list \<Rightarrow> string list" where
  "extra_fields fs = filter (\<lambda>f. f \<notin> set common_fields) fs"

subsection \<open>The notebook's example inputs\<close>

text \<open>
  The cells that try the optimizers out use \<^verbatim>\<open>{"a": 1.0, "b": 2.0}\<close> with gradients
  \<^verbatim>\<open>{"a": -1.0, "b": 1.0}\<close> for \<^verbatim>\<open>MetaSGDWD\<close>, arrays of ones of shapes \<open>[2, 3]\<close> and
  \<open>[1]\<close> with gradients of minus ones for \<^verbatim>\<open>PerParamMLP\<close>, and arrays of ones of shapes
  \<open>[3, 2]\<close> and \<open>[2, 1]\<close> with gradients of minus ones and \<^verbatim>\<open>loss=1.0\<close> for
  \<^verbatim>\<open>HParamControllerLOPT\<close>.
\<close>

definition full :: "nat list \<Rightarrow> real \<Rightarrow> ndarray" where
  "full sh v = \<lparr>shape = sh, elems = replicate (prod_list sh) v, py_scalar = False\<rparr>"

definition fake_params :: "ndarray pytree" where
  "fake_params = Node (DictNode [''a'', ''b'']) [Leaf (scalar 1), Leaf (scalar 2)]"

definition fake_grads :: "ndarray pytree" where
  "fake_grads = Node (DictNode [''a'', ''b'']) [Leaf (scalar (- 1)), Leaf (scalar 1)]"

definition fake_params_mlp :: "ndarray pytree" where
  "fake_params_mlp = Node (DictNode [''a'', ''b'']) [Leaf (full [2, 3] 1), Leaf (full [1] 1)]"

definition fake_grads_mlp :: "ndarray pytree" where
  "fake_grads_mlp =
     Node (DictNode [''a'', ''b'']) [Leaf (full [2, 3] (- 1)), Leaf (full [1] (- 1))]"

definition params_rnn :: "ndarray pytree" where
  "params_rnn = Node (DictNode [''a'', ''b'']) [Leaf (full [3, 2] 1), Leaf (full [2, 1] 1)]"

definition fake_grads_rnn :: "ndarray pytree" where
  "fake_grads_rnn =
     Node (DictNode [''a'', ''b'']) [Leaf (full [3, 2] (- 1)), Leaf (full [2, 1] (- 1))]"

text \<open>
  The learned optimizers of those cells are built with the default arguments:
  \<^verbatim>\<open>MetaSGDWD()\<close> has \<^verbatim>\<open>initial_lr=1e-3\<close> and \<^verbatim>\<open>initial_wd=1e-2\<close>, \<^verbatim>\<open>PerParamMLP()\<close>
  has \<^verbatim>\<open>decay=0.9\<close> and \<^verbatim>\<open>hidden_size=64\<close>.
\<close>

definition lopt_sgd :: MetaSGDWD where
  "lopt_sgd = \<lparr>initial_lr = 1 / 1000, initial_wd = 1 / 100\<rparr>"

definition lopt_mlp :: PerParamMLP where
  "lopt_mlp = \<lparr>decay = 9 / 10, hidden_size = 64\<rparr>"

text \<open>
  Networks whose weights are all zero, to run the examples: a dense layer with \<open>n\<close>
  outputs maps an input of shape \<open>[..., k]\<close> to zeros of shape \<open>[..., n]\<close>; the LSTM with
  zero weights, started from the zero state, outputs zeros and keeps its state. The
  weights and the RNN state carry no information here and are of type \<open>unit\<close>.
\<close>

definition zero_dense :: "nat \<Rightarrow> ndarray \<Rightarrow> ndarray" where
  "zero_dense n x =
     \<lparr>shape = butlast (shape x) @ [n],
      elems = replicate (prod_list (butlast (shape x)) * n) 0, py_scalar = False\<rparr>"

definition zero_mlp :: "nat list \<Rightarrow> unit \<Rightarrow> ndarray \<Rightarrow> ndarray result" where
  "zero_mlp output_sizes w x = Inr (zero_dense (last output_sizes) x)"

definition zero_lstm :: "nat \<Rightarrow> unit \<Rightarrow> ndarray \<Rightarrow> unit \<Rightarrow> (ndarray \<times> unit) result" where
  "zero_lstm n w x h = Inr (zero_dense n x, h)"

definition zero_linear :: "nat \<Rightarrow> unit \<Rightarrow> ndarray \<Rightarrow> ndarray result" where
  "zero_linear n w x = Inr (zero_dense n x)"

definition theta_mlp :: "string \<rightharpoonup> unit" where
  "theta_mlp = [''nn'' \<mapsto> ()]"

definition theta_rnn :: "string \<rightharpoonup> unit" where
  "theta_rnn = [''rnn_params'' \<mapsto> (), ''initial_rnn_hidden_state'' \<mapsto> ()]"

section \<open>Auxiliary facts\<close>

subsection \<open>Results and lists of results\<close>

lemma bind_Inr [simp]: "bind (Inr x) f = f x"
  by (simp add: bind_def)

lemma bind_Inl [simp]: "bind (Inl e) f = Inl e"
  by (simp add: bind_def)

lemma bind_eq_Inr: "bind m f = Inr y \<longleftrightarrow> (\<exists>x. m = Inr x \<and> f x = Inr y)"
  by (cases m) auto

lemma sequence_eq_Inr: "sequence ms = Inr xs \<longleftrightarrow> ms = map Inr xs"
  by (induction ms arbitrary: xs) (auto simp: bind_eq_Inr)

lemma map_sum_bind: "map_sum id g (bind m f) = bind m (\<lambda>x. map_sum id g (f x))"
  by (cases m) auto

lemma map_Inr_ex: "(\<And>m. m \<in> set ms \<Longrightarrow> \<exists>z. m = Inr z) \<Longrightarrow> \<exists>zs. ms = map Inr zs"
proof (induction ms)
  case Nil
  then show ?case by simp
next
  case (Cons m ms)
  then obtain z zs where "m = Inr z" "ms = map Inr zs" by (meson list.set_intros)
  then have "m # ms = map Inr (z # zs)" by simp
  then show ?case by (rule exI)
qed

lemma map_Leaf_ex: "(\<And>y. y \<in> set rs \<Longrightarrow> \<exists>a. y = Leaf a) \<Longrightarrow> \<exists>xs. rs = map Leaf xs"
proof (induction rs)
  case Nil
  then show ?case by simp
next
  case (Cons r rs)
  then obtain a xs where "r = Leaf a" "rs = map Leaf xs" by (meson list.set_intros)
  then have "r # rs = map Leaf (a # xs)" by simp
  then show ?case by (rule exI)
qed

lemma map2_Inr_arg:
  assumes "map2 f xs ys = map Inr zs" and "length xs = length ys" and "y \<in> set ys"
  shows "\<exists>x z. f x y = Inr z"
proof -
  from assms(3) obtain i where i: "i < length ys" "ys ! i = y" by (auto simp: in_set_conv_nth)
  with assms(2) have "map2 f xs ys ! i = f (xs ! i) y" by simp
  moreover from assms(1,2) i have "map2 f xs ys ! i = Inr (zs ! i)"
    by (metis length_map length_zip min.idem nth_map)
  ultimately show ?thesis by metis
qed

lemma zip_map_eq:
  assumes "map f xs = map f ys" "(x, y) \<in> set (zip xs ys)"
  shows "f x = f y"
proof -
  from assms(2) obtain i where i: "i < length xs" "i < length ys" "xs ! i = x" "ys ! i = y"
    by (auto simp: in_set_zip)
  then have "f x = map f xs ! i" "f y = map f ys ! i" by simp_all
  with assms(1) show ?thesis by simp
qed

lemma in_zip3D:
  "(x, a, b) \<in> set (zip xs (zip ys zs)) \<Longrightarrow> (x, a) \<in> set (zip xs ys) \<and> (x, b) \<in> set (zip xs zs)"
proof (induction xs arbitrary: ys zs)
  case Nil
  then show ?case by simp
next
  case (Cons x' xs)
  then show ?case by (cases ys; cases zs) auto
qed

subsection \<open>Trees\<close>

lemma tree_structure_simps [simp]:
  "tree_structure (Leaf x) = Leaf ()"
  "tree_structure (Node k ts) = Node k (map tree_structure ts)"
  by (simp_all add: tree_structure_def)

lemma tree_leaves_map: "tree_leaves (map_pytree f t) = map f (tree_leaves t)"
  by (induction t) (auto simp: map_concat intro: arg_cong[where f=concat])

lemma tree_structure_map: "tree_structure (map_pytree f t) = tree_structure t"
  by (simp add: tree_structure_def pytree.map_comp comp_def)

lemma flatten_up_to_length:
  "flatten_up_to (t :: 'a pytree) (r :: 'b pytree) = Some rs \<Longrightarrow>
     length rs = length (tree_leaves t)"
  "flatten_up_to_list (ts :: 'a pytree list) (rs' :: 'b pytree list) = Some rs \<Longrightarrow>
     length rs = length (concat (map tree_leaves ts))"
  by (induction t r and ts rs' arbitrary: rs and rs rule: flatten_up_to_flatten_up_to_list.induct)
     (auto split: if_splits option.splits)

lemma flatten_up_to_leaves:
  "flatten_up_to (t :: 'a pytree) (r :: 'b pytree) = Some (map Leaf xs) \<Longrightarrow>
     tree_structure r = tree_structure t \<and> tree_leaves r = xs"
  "flatten_up_to_list (ts :: 'a pytree list) (rs :: 'b pytree list) = Some (map Leaf xs) \<Longrightarrow>
     map tree_structure rs = map tree_structure ts \<and> concat (map tree_leaves rs) = xs"
proof (induction t r and ts rs arbitrary: xs and xs rule: flatten_up_to_flatten_up_to_list.induct)
  case (1 x r)
  then show ?case by (cases xs) auto
next
  case (3 k ts k' rs)
  then show ?case by (auto split: if_splits)
next
  case (5 t ts r rs)
  from "5.prems" obtain ys zs where a: "flatten_up_to t r = Some ys"
    and b: "flatten_up_to_list ts rs = Some zs" and c: "map Leaf xs = ys @ zs"
    by (auto split: option.splits)
  from c obtain xs1 xs2 where d: "xs = xs1 @ xs2" "ys = map Leaf xs1" "zs = map Leaf xs2"
    by (auto simp: map_eq_append_conv)
  from "5.IH"(1)[of xs1] a d have "tree_structure r = tree_structure t \<and> tree_leaves r = xs1"
    by simp
  moreover from "5.IH"(2)[OF a, of xs2] b d
  have "map tree_structure rs = map tree_structure ts \<and> concat (map tree_leaves rs) = xs2"
    by simp
  ultimately show ?case using d by simp
qed auto

lemma flatten_up_to_same:
  "tree_structure (r :: 'b pytree) = tree_structure (t :: 'a pytree) \<Longrightarrow>
     flatten_up_to t r = Some (map Leaf (tree_leaves r))"
  "map tree_structure (rs :: 'b pytree list) = map tree_structure (ts :: 'a pytree list) \<Longrightarrow>
     flatten_up_to_list ts rs = Some (map Leaf (concat (map tree_leaves rs)))"
proof (induction t r and ts rs rule: flatten_up_to_flatten_up_to_list.induct)
  case (1 x r)
  then show ?case by (cases r) auto
qed auto

lemma tree_unflatten_Inr:
  "tree_unflatten (t :: 'a pytree) (ys :: 'b list) = Inr u \<Longrightarrow>
     tree_leaves u = ys \<and> tree_structure u = tree_structure t"
  "tree_unflatten_list (ts :: 'a pytree list) (ys :: 'b list) = Inr us \<Longrightarrow>
     concat (map tree_leaves us) = ys \<and> map tree_structure us = map tree_structure ts"
proof (induction t ys and ts ys arbitrary: u and us rule: tree_unflatten_tree_unflatten_list.induct)
  case (4 t ts ys)
  from "4.prems" obtain v vs where
    a: "tree_unflatten t (take (length (tree_leaves t)) ys) = Inr v"
    and b: "tree_unflatten_list ts (drop (length (tree_leaves t)) ys) = Inr vs"
    and c: "us = v # vs"
    by (auto simp: bind_eq_Inr)
  from "4.IH"(1)[OF a] "4.IH"(2)[OF b] c show ?case
    by (simp add: append_take_drop_id)
qed (auto simp: bind_eq_Inr split: list.splits)

lemma tree_unflatten_total:
  "length (ys :: 'b list) = length (tree_leaves (t :: 'a pytree)) \<Longrightarrow>
     \<exists>u. tree_unflatten t ys = Inr u"
  "length (ys :: 'b list) = length (concat (map tree_leaves (ts :: 'a pytree list))) \<Longrightarrow>
     \<exists>us. tree_unflatten_list ts ys = Inr us"
proof (induction t ys and ts ys rule: tree_unflatten_tree_unflatten_list.induct)
  case (1 x ys)
  then show ?case by (cases ys) (auto split: list.splits)
next
  case (2 k ts ys)
  then show ?case by (auto simp: bind_eq_Inr)
next
  case (3 ys)
  then show ?case by (cases ys) auto
next
  case (4 t ts ys)
  from "4.prems" have l1: "length (take (length (tree_leaves t)) ys) = length (tree_leaves t)"
    and l2: "length (drop (length (tree_leaves t)) ys) = length (concat (map tree_leaves ts))"
    by auto
  from "4.IH"(1)[OF l1] obtain v where
    a: "tree_unflatten t (take (length (tree_leaves t)) ys) = Inr v" by blast
  from "4.IH"(2)[OF l2] obtain vs where
    "tree_unflatten_list ts (drop (length (tree_leaves t)) ys) = Inr vs" by blast
  with a show ?case by simp
qed

lemma shape_tree_leaves:
  assumes "map_pytree f r = map_pytree f t"
  shows "tree_structure r = tree_structure t" "map f (tree_leaves r) = map f (tree_leaves t)"
proof -
  show "tree_structure r = tree_structure t"
    using tree_structure_map[of f r] tree_structure_map[of f t] assms by simp
  show "map f (tree_leaves r) = map f (tree_leaves t)"
    using tree_leaves_map[of f r] tree_leaves_map[of f t] assms by simp
qed

lemma tree_map2_Inr:
  assumes "tree_map2 f t r = Inr u"
    and leaf: "\<And>x y z. f x y = Inr z \<Longrightarrow> \<exists>a. y = Leaf a"
  shows "tree_structure r = tree_structure t \<and> tree_structure u = tree_structure t \<and>
     map Inr (tree_leaves u) = map2 (\<lambda>x a. f x (Leaf a)) (tree_leaves t) (tree_leaves r)"
proof -
  from assms(1) obtain rs ys where rs: "flatten_up_to t r = Some rs"
    and ys: "map2 f (tree_leaves t) rs = map Inr ys"
    and u: "tree_unflatten t ys = Inr u"
    by (auto simp: tree_map2_def bind_eq_Inr sequence_eq_Inr split: option.splits)
  have len: "length (tree_leaves t) = length rs"
    using flatten_up_to_length(1)[OF rs] by simp
  have "\<exists>xs. rs = map Leaf xs"
    by (rule map_Leaf_ex) (use map2_Inr_arg[OF ys len] leaf in blast)
  then obtain xs where xs: "rs = map Leaf xs" by blast
  from flatten_up_to_leaves(1)[of t r xs] rs xs
  have r: "tree_structure r = tree_structure t" "tree_leaves r = xs" by simp_all
  from ys xs r(2) have "map2 (\<lambda>x a. f x (Leaf a)) (tree_leaves t) (tree_leaves r) = map Inr ys"
    by (simp add: zip_map2 case_prod_unfold comp_def)
  with tree_unflatten_Inr(1)[OF u] r(1) show ?thesis by simp
qed

lemma tree_map3_Inr:
  assumes "tree_map3 f t r1 r2 = Inr u"
    and leaf: "\<And>x y1 y2 z. f x y1 y2 = Inr z \<Longrightarrow> (\<exists>a. y1 = Leaf a) \<and> (\<exists>b. y2 = Leaf b)"
  shows "tree_structure r1 = tree_structure t \<and> tree_structure r2 = tree_structure t \<and>
     tree_structure u = tree_structure t \<and>
     map Inr (tree_leaves u) =
       map (\<lambda>(x, a, b). f x (Leaf a) (Leaf b))
         (zip (tree_leaves t) (zip (tree_leaves r1) (tree_leaves r2)))"
proof -
  from assms(1) obtain rs1 rs2 ys where rs1: "flatten_up_to t r1 = Some rs1"
    and rs2: "flatten_up_to t r2 = Some rs2"
    and ys: "map2 (\<lambda>x (y1, y2). f x y1 y2) (tree_leaves t) (zip rs1 rs2) = map Inr ys"
    and u: "tree_unflatten t ys = Inr u"
    by (auto simp: tree_map3_def bind_eq_Inr sequence_eq_Inr split: option.splits)
  have len1: "length rs1 = length (tree_leaves t)" and len2: "length rs2 = length (tree_leaves t)"
    using flatten_up_to_length(1)[OF rs1] flatten_up_to_length(1)[OF rs2] by simp_all
  then have len: "length (tree_leaves t) = length (zip rs1 rs2)" by simp
  have pairs: "\<exists>a b. y1 = Leaf a \<and> y2 = Leaf b" if "(y1, y2) \<in> set (zip rs1 rs2)" for y1 y2
    using map2_Inr_arg[OF ys len that] leaf by auto
  have "\<exists>xs. rs1 = map Leaf xs"
  proof (rule map_Leaf_ex)
    fix y assume "y \<in> set rs1"
    then obtain i where "i < length rs1" "rs1 ! i = y" by (auto simp: in_set_conv_nth)
    with len1 len2 have "(y, rs2 ! i) \<in> set (zip rs1 rs2)"
      by (metis in_set_zip fst_conv snd_conv)
    with pairs show "\<exists>a. y = Leaf a" by blast
  qed
  then obtain xs1 where xs1: "rs1 = map Leaf xs1" by blast
  have "\<exists>xs. rs2 = map Leaf xs"
  proof (rule map_Leaf_ex)
    fix y assume "y \<in> set rs2"
    then obtain i where "i < length rs2" "rs2 ! i = y" by (auto simp: in_set_conv_nth)
    with len1 len2 have "(rs1 ! i, y) \<in> set (zip rs1 rs2)"
      by (metis in_set_zip fst_conv snd_conv)
    with pairs show "\<exists>a. y = Leaf a" by blast
  qed
  then obtain xs2 where xs2: "rs2 = map Leaf xs2" by blast
  from flatten_up_to_leaves(1)[of t r1 xs1] rs1 xs1
  have r1: "tree_structure r1 = tree_structure t" "tree_leaves r1 = xs1" by simp_all
  from flatten_up_to_leaves(1)[of t r2 xs2] rs2 xs2
  have r2: "tree_structure r2 = tree_structure t" "tree_leaves r2 = xs2" by simp_all
  have "zip rs1 rs2 = map (\<lambda>(a, b). (Leaf a, Leaf b)) (zip xs1 xs2)"
    unfolding xs1 xs2 by (simp add: zip_map_map)
  with ys r1(2) r2(2) have "map (\<lambda>(x, a, b). f x (Leaf a) (Leaf b))
        (zip (tree_leaves t) (zip (tree_leaves r1) (tree_leaves r2))) = map Inr ys"
    by (simp add: zip_map2 case_prod_unfold comp_def)
  with tree_unflatten_Inr(1)[OF u] r1(1) r2(1) show ?thesis by simp
qed

lemma tree_map2_total:
  assumes "tree_structure r = tree_structure t"
    and ok: "\<And>x a. (x, a) \<in> set (zip (tree_leaves t) (tree_leaves r)) \<Longrightarrow> \<exists>z. f x (Leaf a) = Inr z"
  shows "\<exists>u. tree_map2 f t r = Inr u"
proof -
  have fl: "flatten_up_to t r = Some (map Leaf (tree_leaves r))"
    by (rule flatten_up_to_same(1)[OF assms(1)])
  have len: "length (tree_leaves r) = length (tree_leaves t)"
    using flatten_up_to_length(1)[OF fl] by simp
  have "\<exists>zs. map2 f (tree_leaves t) (map Leaf (tree_leaves r)) = map Inr zs"
    by (rule map_Inr_ex) (use ok in \<open>auto simp: zip_map2\<close>)
  then obtain zs where zs: "map2 f (tree_leaves t) (map Leaf (tree_leaves r)) = map Inr zs"
    by blast
  then have "length zs = length (tree_leaves t)"
    using len by (metis length_map length_zip min.idem)
  from tree_unflatten_total(1)[OF this] obtain u where "tree_unflatten t zs = Inr u" by blast
  with fl zs show ?thesis by (simp add: tree_map2_def sequence_eq_Inr[THEN iffD2])
qed

lemma tree_map3_total:
  assumes "tree_structure r1 = tree_structure t" "tree_structure r2 = tree_structure t"
    and ok: "\<And>x a b. (x, a, b) \<in> set (zip (tree_leaves t) (zip (tree_leaves r1) (tree_leaves r2)))
               \<Longrightarrow> \<exists>z. f x (Leaf a) (Leaf b) = Inr z"
  shows "\<exists>u. tree_map3 f t r1 r2 = Inr u"
proof -
  have fl1: "flatten_up_to t r1 = Some (map Leaf (tree_leaves r1))"
    by (rule flatten_up_to_same(1)[OF assms(1)])
  have fl2: "flatten_up_to t r2 = Some (map Leaf (tree_leaves r2))"
    by (rule flatten_up_to_same(1)[OF assms(2)])
  have len: "length (tree_leaves r1) = length (tree_leaves t)"
    "length (tree_leaves r2) = length (tree_leaves t)"
    using flatten_up_to_length(1)[OF fl1] flatten_up_to_length(1)[OF fl2] by simp_all
  let ?ms = "map (\<lambda>(x, y, z). f x y z)
     (zip (tree_leaves t) (zip (map Leaf (tree_leaves r1)) (map Leaf (tree_leaves r2))))"
  let ?zs = "zip (tree_leaves t) (zip (tree_leaves r1) (tree_leaves r2))"
  have ms: "?ms = map (\<lambda>(x, a, b). f x (Leaf a) (Leaf b)) ?zs"
    by (rule nth_equalityI) (simp_all add: len)
  have "\<exists>zs. map (\<lambda>(x, a, b). f x (Leaf a) (Leaf b)) ?zs = map Inr zs"
  proof (rule map_Inr_ex)
    fix m assume "m \<in> set (map (\<lambda>(x, a, b). f x (Leaf a) (Leaf b)) ?zs)"
    then obtain x a b where "(x, a, b) \<in> set ?zs" "m = f x (Leaf a) (Leaf b)" by auto
    with ok show "\<exists>z. m = Inr z" by simp
  qed
  then obtain zs where zs: "?ms = map Inr zs" using ms by auto
  have "length ?ms = length (tree_leaves t)" using len by simp
  with zs have "length zs = length (tree_leaves t)" by (simp only: length_map)
  from tree_unflatten_total(1)[OF this] obtain u where "tree_unflatten t zs = Inr u" by blast
  with fl1 fl2 zs show ?thesis by (simp add: tree_map3_def sequence_eq_Inr[THEN iffD2])
qed

subsection \<open>Shapes of array operations\<close>

lemma broadcast_rev_same: "broadcast_rev xs xs = Some xs"
  by (induction xs) auto

lemma broadcast_rev_Nil2: "broadcast_rev xs [] = Some xs"
  by (cases xs) auto

lemma binop_same: "shape a = shape b \<Longrightarrow> \<exists>c. binop f a b = Inr c \<and> shape c = shape a"
  by (simp add: binop_def broadcast_shapes_def broadcast_rev_same)

lemma binop_scalar: "shape b = [] \<Longrightarrow> \<exists>c. binop f a b = Inr c \<and> shape c = shape a"
  by (simp add: binop_def broadcast_shapes_def broadcast_rev_Nil2)

lemma sort_axes: "sort ([1..<Suc n] @ [0]) = [0..<Suc n]"
  by (rule sorted_distinct_set_unique) (auto simp del: upt_Suc)

lemma map_nth_axes: "map ((!) (x # S)) ([1..<Suc (length S)] @ [0]) = S @ [x]"
proof -
  have "[1..<Suc (length S)] = map Suc [0..<length S]"
    by (simp add: map_Suc_upt del: upt_Suc)
  then have "map ((!) (x # S)) [1..<Suc (length S)] = map ((!) S) [0..<length S]"
    by (simp add: comp_def del: upt_Suc)
  then show ?thesis by (simp add: map_nth del: upt_Suc)
qed

lemma jop_Inr [simp]:
  "jsub (Inr a) (Inr b) = binop (-) a b"
  "jmul (Inr a) (Inr b) = binop (*) a b"
  "jadd (Inr a) (Inr b) = binop (+) a b"
  by (simp_all add: jsub_def jmul_def jadd_def)

lemma shape_scalar [simp]: "shape (scalar r) = []"
  by (simp add: scalar_def)

lemma shape_jexp [simp]: "shape (jexp a) = shape a"
  by (simp add: jexp_def)

lemma index_last_total:
  "k < n \<Longrightarrow> shape a = S @ [n] \<Longrightarrow> \<exists>c. index_last a k = Inr c \<and> shape c = S"
  by (simp add: index_last_def)

subsection \<open>\<^verbatim>\<open>MetaSGDWD\<close>\<close>

lemma MetaSGDWD_update_one_Leaf:
  "MetaSGDWD_update_one lr wd p (Leaf g) =
     jsub (jsub (Inr p) (jmul (Inr g) (Inr lr))) (jmul (Inr p) (Inr wd))"
  by (simp add: MetaSGDWD_update_one_def)

lemma MetaSGDWD_update_one_Inr:
  "MetaSGDWD_update_one lr wd p g = Inr z \<Longrightarrow> \<exists>a. g = Leaf a"
  by (cases g) (simp_all add: MetaSGDWD_update_one_def jsub_def jmul_def)

lemma MetaSGDWD_Opt_update_Inr:
  assumes "MetaSGDWD_Opt_update theta s grads ms = Inr s'"
  shows "\<exists>log_lr log_wd next_params.
     getitem theta ''log_lr'' = Inr log_lr \<and> getitem theta ''log_wd'' = Inr log_wd \<and>
     tree_map2 (MetaSGDWD_update_one (jexp log_lr) (jexp log_wd)) (LOptState.params s) grads
       = Inr next_params \<and>
     s' = \<lparr>LOptState.params = next_params, model_state = ms,
           iteration = LOptState.iteration s + 1\<rparr>"
  using assms by (auto simp: MetaSGDWD_Opt_update_def bind_eq_Inr)

lemma MetaSGDWD_update_one_total:
  assumes "shape lr = []" "shape wd = []" "shape g = shape p"
  shows "\<exists>z. MetaSGDWD_update_one lr wd p (Leaf g) = Inr z"
proof -
  from binop_scalar[OF assms(1), of "(*)" g] obtain glr where
    glr: "binop (*) g lr = Inr glr" "shape glr = shape g" by blast
  from binop_same[of p glr "(-)"] glr assms(3) obtain d where
    d: "binop (-) p glr = Inr d" "shape d = shape p" by auto
  from binop_scalar[OF assms(2), of "(*)" p] obtain pwd where
    pwd: "binop (*) p wd = Inr pwd" "shape pwd = shape p" by blast
  from binop_same[of d pwd "(-)"] d pwd obtain z where "binop (-) d pwd = Inr z" by auto
  with glr d pwd show ?thesis by (simp add: MetaSGDWD_update_one_def)
qed

lemma MetaSGDWD_Opt_update_total:
  assumes "getitem theta ''log_lr'' = Inr a" "shape a = []"
    and "getitem theta ''log_wd'' = Inr b" "shape b = []"
    and "map_pytree shape g = map_pytree shape (LOptState.params s)"
  shows "\<exists>s'. MetaSGDWD_Opt_update theta s g ms = Inr s'"
proof -
  note sh = shape_tree_leaves[OF assms(5)]
  have "\<exists>u. tree_map2 (MetaSGDWD_update_one (jexp a) (jexp b)) (LOptState.params s) g = Inr u"
  proof (rule tree_map2_total[OF sh(1)])
    fix x y assume "(x, y) \<in> set (zip (tree_leaves (LOptState.params s)) (tree_leaves g))"
    from zip_map_eq[OF sh(2)[symmetric] this] have "shape y = shape x" by simp
    with assms(2,4) show "\<exists>z. MetaSGDWD_update_one (jexp a) (jexp b) x (Leaf y) = Inr z"
      by (intro MetaSGDWD_update_one_total) simp_all
  qed
  with assms(1,3) show ?thesis by (auto simp: MetaSGDWD_Opt_update_def)
qed

subsection \<open>\<^verbatim>\<open>PerParamMLP\<close>\<close>

lemma update_one_momentum_total:
  assumes "shape g = shape m"
  shows "\<exists>z. update_one_momentum parent m (Leaf g) = Inr z \<and> shape z = shape m"
proof -
  from binop_scalar[of "scalar (decay parent)" "(*)" m] obtain md where
    md: "binop (*) m (scalar (decay parent)) = Inr md" "shape md = shape m" by auto
  from binop_scalar[of "scalar (1 - decay parent)" "(*)" g] obtain gd where
    gd: "binop (*) g (scalar (1 - decay parent)) = Inr gd" "shape gd = shape g" by auto
  from binop_same[of md gd "(+)"] md gd assms obtain z where
    "binop (+) md gd = Inr z" "shape z = shape m" by auto
  with md gd show ?thesis by (simp add: update_one_momentum_def)
qed

lemma update_one_momentum_Inr:
  "update_one_momentum parent m g = Inr z \<Longrightarrow> \<exists>a. g = Leaf a"
  by (cases g) (simp_all add: update_one_momentum_def jadd_def jmul_def bind_eq_Inr)

lemma forward_total:
  assumes mlp: "\<And>x S. shape x = S @ [3] \<Longrightarrow>
             \<exists>y. mlp [hidden_size self, 2] w x = Inr y \<and> shape y = S @ [2]"
    and "shape m = shape g" "shape p = shape g" "\<not> py_scalar g"
  shows "\<exists>z. forward mlp self w g (Leaf m) (Leaf p) = Inr z \<and> shape z = shape g"
proof -
  define S where "S = shape g"
  have st: "stack [p, m, g] =
      Inr \<lparr>shape = 3 # S, elems = concat (map elems [p, m, g]), py_scalar = False\<rparr>"
    using assms(2,3) by (simp add: stack_def S_def)
  define f0 where
    "f0 = \<lparr>shape = 3 # S, elems = concat (map elems [p, m, g]), py_scalar = False\<rparr>"
  have "\<exists>f. jtranspose f0 ([1..<1 + length (shape g)] @ [0]) = Inr f \<and> shape f = S @ [3]"
    using sort_axes[of "length S"] map_nth_axes[of 3 S]
    by (simp add: jtranspose_def f0_def S_def Let_def del: upt_Suc)
  then obtain f where f: "jtranspose f0 ([1..<1 + length (shape g)] @ [0]) = Inr f"
    "shape f = S @ [3]" by blast
  from mlp[OF f(2)] obtain outs where outs: "mlp [hidden_size self, 2] w f = Inr outs"
    "shape outs = S @ [2]" by auto
  from index_last_total[of 0 2 outs S] outs(2) obtain scale where
    scale: "index_last outs 0 = Inr scale" "shape scale = S" by auto
  from index_last_total[of 1 2 outs S] outs(2) obtain mag where
    mag: "index_last outs 1 = Inr mag" "shape mag = S" by auto
  from binop_scalar[of "scalar (1 / 100)" "(*)" scale] scale(2) obtain s1 where
    s1: "binop (*) scale (scalar (1 / 100)) = Inr s1" "shape s1 = S" by auto
  from binop_scalar[of "scalar (1 / 100)" "(*)" mag] mag(2) obtain m1 where
    m1: "binop (*) mag (scalar (1 / 100)) = Inr m1" "shape m1 = S" by auto
  from binop_same[of s1 "jexp m1" "(*)"] s1(2) m1(2) obtain z where
    z: "binop (*) s1 (jexp m1) = Inr z" "shape z = S" by auto
  have "forward mlp self w g (Leaf m) (Leaf p) = Inr z"
    using st f outs scale mag s1 m1 z assms(4) by (simp add: forward_def f0_def shape_attr_def)
  with z(2) show ?thesis by (simp add: S_def)
qed

lemma PerParamMLP_update_one_total:
  assumes "getitem theta ''nn'' = Inr w"
    and mlp: "\<And>x S. shape x = S @ [3] \<Longrightarrow>
             \<exists>y. mlp [hidden_size parent, 2] w x = Inr y \<and> shape y = S @ [2]"
    and "shape m = shape g" "shape p = shape g" "\<not> py_scalar g"
  shows "\<exists>z. PerParamMLP_update_one mlp parent theta g (Leaf m) (Leaf p) = Inr z"
proof -
  have "\<exists>z. forward mlp parent w g (Leaf m) (Leaf p) = Inr z \<and> shape z = shape g"
    by (rule forward_total[where w = w and mlp = mlp]) (use mlp assms(3,4,5) in auto)
  then obtain step where
    step: "forward mlp parent w g (Leaf m) (Leaf p) = Inr step" "shape step = shape g" by blast
  from binop_same[of p step "(-)"] step(2) assms(4) obtain z where "binop (-) p step = Inr z"
    by auto
  with assms(1) step(1) show ?thesis by (simp add: PerParamMLP_update_one_def)
qed

lemma next_moms_shapes:
  assumes tm: "tree_map2 (update_one_momentum parent) t g = Inr u"
    and sh: "map shape (tree_leaves g) = map shape (tree_leaves t)"
  shows "tree_structure u = tree_structure t" "map shape (tree_leaves u) = map shape (tree_leaves t)"
proof -
  note r = tree_map2_Inr[OF tm update_one_momentum_Inr]
  from r show "tree_structure u = tree_structure t" by simp
  from r have eq: "map Inr (tree_leaves u) =
      map2 (\<lambda>x a. update_one_momentum parent x (Leaf a)) (tree_leaves t) (tree_leaves g)"
    by simp
  from sh have len: "length (tree_leaves g) = length (tree_leaves t)" by (metis length_map)
  from arg_cong[OF eq, of length] len have lenu: "length (tree_leaves u) = length (tree_leaves t)"
    by simp
  show "map shape (tree_leaves u) = map shape (tree_leaves t)"
  proof (rule nth_equalityI)
    show "length (map shape (tree_leaves u)) = length (map shape (tree_leaves t))"
      using lenu by simp
  next
    fix i assume "i < length (map shape (tree_leaves u))"
    with lenu len have i: "i < length (tree_leaves u)" "i < length (tree_leaves t)"
      "i < length (tree_leaves g)" by simp_all
    from arg_cong[OF sh, of "\<lambda>xs. xs ! i"] i
    have "shape (tree_leaves g ! i) = shape (tree_leaves t ! i)"
      by simp
    from update_one_momentum_total[OF this, of parent] obtain z where
      z: "update_one_momentum parent (tree_leaves t ! i) (Leaf (tree_leaves g ! i)) = Inr z"
      "shape z = shape (tree_leaves t ! i)" by blast
    have "Inr (tree_leaves u ! i) = map Inr (tree_leaves u) ! i" using i by simp
    also have "\<dots> = map2 (\<lambda>x a. update_one_momentum parent x (Leaf a)) (tree_leaves t)
      (tree_leaves g) ! i" by (simp only: eq)
    also have "\<dots> = update_one_momentum parent (tree_leaves t ! i) (Leaf (tree_leaves g ! i))"
      using i by simp
    also have "\<dots> = Inr z" by (rule z(1))
    finally have "tree_leaves u ! i = z" by simp
    with z(2) i show "map shape (tree_leaves u) ! i = map shape (tree_leaves t) ! i" by simp
  qed
qed

lemma PerParamMLP_Opt_update_total:
  assumes nn: "getitem theta ''nn'' = Inr w"
    and mlp: "\<And>x S. shape x = S @ [3] \<Longrightarrow>
             \<exists>y. mlp [hidden_size parent, 2] w x = Inr y \<and> shape y = S @ [2]"
    and g: "map_pytree shape g = map_pytree shape (PerParamState.params q)"
    and m: "map_pytree shape (momentums q) = map_pytree shape (PerParamState.params q)"
    and arr: "list_all (\<lambda>a. \<not> py_scalar a) (tree_leaves (PerParamState.params q))"
  shows "\<exists>q'. PerParamMLP_Opt_update mlp parent theta q g ms = Inr q'"
proof -
  note gs = shape_tree_leaves[OF g] and ms = shape_tree_leaves[OF m]
  have "\<exists>u. tree_map2 (update_one_momentum parent) (momentums q) g = Inr u"
  proof (rule tree_map2_total)
    show "tree_structure g = tree_structure (momentums q)" using gs(1) ms(1) by simp
  next
    fix x a assume "(x, a) \<in> set (zip (tree_leaves (momentums q)) (tree_leaves g))"
    from zip_map_eq[of shape, OF _ this] gs(2) ms(2) have "shape a = shape x" by simp
    from update_one_momentum_total[OF this]
    show "\<exists>z. update_one_momentum parent x (Leaf a) = Inr z" by blast
  qed
  then obtain next_moms where
    nm: "tree_map2 (update_one_momentum parent) (momentums q) g = Inr next_moms" by blast
  from gs(2) ms(2) have "map shape (tree_leaves g) = map shape (tree_leaves (momentums q))"
    by simp
  note nms = next_moms_shapes[OF nm this]
  have "\<exists>u. tree_map3 (PerParamMLP_update_one mlp parent theta) (PerParamState.params q) g next_moms
      = Inr u"
  proof (rule tree_map3_total)
    show "tree_structure g = tree_structure (PerParamState.params q)" by (rule gs(1))
    show "tree_structure next_moms = tree_structure (PerParamState.params q)"
      using nms(1) ms(1) by simp
  next
    fix x a b
    assume "(x, a, b) \<in> set (zip (tree_leaves (PerParamState.params q))
      (zip (tree_leaves g) (tree_leaves next_moms)))"
    from in_zip3D[OF this]
    have xa: "(x, a) \<in> set (zip (tree_leaves (PerParamState.params q)) (tree_leaves g))"
      and xb: "(x, b) \<in> set (zip (tree_leaves (PerParamState.params q)) (tree_leaves next_moms))"
      by simp_all
    from zip_map_eq[of shape, OF _ xa] gs(2) have a: "shape a = shape x" by simp
    from zip_map_eq[of shape, OF _ xb] nms(2) ms(2) have b: "shape b = shape x" by simp
    from xa have "x \<in> set (tree_leaves (PerParamState.params q))" by (rule set_zip_leftD)
    with arr have x: "\<not> py_scalar x" by (simp add: list_all_iff)
    show "\<exists>z. PerParamMLP_update_one mlp parent theta x (Leaf a) (Leaf b) = Inr z"
      by (rule PerParamMLP_update_one_total[where w = w and mlp = mlp]) (use nn mlp a b x in auto)
  qed
  with nm show ?thesis by (auto simp: PerParamMLP_Opt_update_def)
qed

lemma PerParamMLP_Opt_update_Inr:
  assumes "PerParamMLP_Opt_update mlp parent theta q grads ms = Inr q'"
  shows "\<exists>next_moms next_params.
     tree_map2 (update_one_momentum parent) (momentums q) grads = Inr next_moms \<and>
     tree_map3 (PerParamMLP_update_one mlp parent theta) (PerParamState.params q) grads next_moms
       = Inr next_params \<and>
     q' = \<lparr>PerParamState.params = next_params, model_state = ms,
           iteration = PerParamState.iteration q + 1, momentums = next_moms\<rparr>"
  using assms by (auto simp: PerParamMLP_Opt_update_def bind_eq_Inr)

lemma update_one_momentum_Leaf:
  "update_one_momentum parent m (Leaf g) =
     jadd (jmul (Inr m) (Inr (scalar (decay parent))))
          (jmul (Inr g) (Inr (scalar (1 - decay parent))))"
  by (simp add: update_one_momentum_def del: jop_Inr)

lemma PerParamMLP_update_one_Inr:
  "PerParamMLP_update_one mlp parent theta g m p = Inr z \<Longrightarrow>
     (\<exists>a. m = Leaf a) \<and> (\<exists>b. p = Leaf b)"
  by (cases m; cases p)
     (auto simp: PerParamMLP_update_one_def forward_def bind_eq_Inr jsub_def)

lemma PerParamMLP_update_one_Leaf:
  "PerParamMLP_update_one mlp parent theta g (Leaf m) (Leaf p) =
     jsub (Inr p) (bind (getitem theta ''nn'') (\<lambda>w. forward mlp parent w g (Leaf m) (Leaf p)))"
  by (cases "bind (getitem theta ''nn'') (\<lambda>w. forward mlp parent w g (Leaf m) (Leaf p))")
     (simp_all add: PerParamMLP_update_one_def jsub_def)

text \<open>
  What \<^verbatim>\<open>update\<close> computes leaf by leaf. \<^verbatim>\<open>jax.tree_map\<close> passes the leaves of
  \<^verbatim>\<open>opt_state.params\<close>, \<^verbatim>\<open>grads\<close> and \<^verbatim>\<open>next_moms\<close>, in this order, to
  \<^verbatim>\<open>_update_one(g, m, p)\<close>: the new parameter leaf is the new momentum minus the step, and
  the network receives the old parameter as \<^verbatim>\<open>grads\<close>, the gradient as \<^verbatim>\<open>momentum\<close> and the
  new momentum as \<^verbatim>\<open>params\<close>.
\<close>

lemma PerParamMLP_update_computes:
  assumes "PerParamMLP_Opt_update mlp parent theta q grads ms = Inr q'"
  shows "map Inr (tree_leaves (momentums q')) =
      map2 (\<lambda>m g. jadd (jmul (Inr m) (Inr (scalar (decay parent))))
                        (jmul (Inr g) (Inr (scalar (1 - decay parent)))))
        (tree_leaves (momentums q)) (tree_leaves grads)"
    and "map Inr (tree_leaves (PerParamState.params q')) =
      map (\<lambda>(p, g, m'). jsub (Inr m')
             (bind (getitem theta ''nn'') (\<lambda>w. forward mlp parent w p (Leaf g) (Leaf m'))))
        (zip (tree_leaves (PerParamState.params q))
           (zip (tree_leaves grads) (tree_leaves (momentums q'))))"
proof -
  from PerParamMLP_Opt_update_Inr[OF assms] obtain next_moms next_params where
    nm: "tree_map2 (update_one_momentum parent) (momentums q) grads = Inr next_moms"
    and np: "tree_map3 (PerParamMLP_update_one mlp parent theta) (PerParamState.params q) grads
       next_moms = Inr next_params"
    and q': "q' = \<lparr>PerParamState.params = next_params, model_state = ms,
           iteration = PerParamState.iteration q + 1, momentums = next_moms\<rparr>"
    by blast
  from tree_map2_Inr[OF nm update_one_momentum_Inr] q'
  show "map Inr (tree_leaves (momentums q')) =
      map2 (\<lambda>m g. jadd (jmul (Inr m) (Inr (scalar (decay parent))))
                        (jmul (Inr g) (Inr (scalar (1 - decay parent)))))
        (tree_leaves (momentums q)) (tree_leaves grads)"
    by (simp add: update_one_momentum_Leaf del: jop_Inr)
  have leafs: "\<And>x y1 y2 z. PerParamMLP_update_one mlp parent theta x y1 y2 = Inr z \<Longrightarrow>
      (\<exists>a. y1 = Leaf a) \<and> (\<exists>b. y2 = Leaf b)"
    by (rule PerParamMLP_update_one_Inr)
  from tree_map3_Inr[OF np leafs] q'
  show "map Inr (tree_leaves (PerParamState.params q')) =
      map (\<lambda>(p, g, m'). jsub (Inr m')
             (bind (getitem theta ''nn'') (\<lambda>w. forward mlp parent w p (Leaf g) (Leaf m'))))
        (zip (tree_leaves (PerParamState.params q))
           (zip (tree_leaves grads) (tree_leaves (momentums q'))))"
    by (simp add: PerParamMLP_update_one_Leaf del: jop_Inr)
qed

subsection \<open>\<^verbatim>\<open>HParamControllerLOPT\<close>\<close>

lemma HParamControllerLOPT_Opt_update_Inr:
  assumes "HParamControllerLOPT_Opt_update lstm_mod linear_mod theta h grads loss ms = Inr h'"
  shows "\<exists>l batched_loss w next_rnn_state lr next_params.
     loss = Some l \<and> reshape l [1, 1] = Inr batched_loss \<and>
     getitem theta ''rnn_params'' = Inr w \<and>
     forward_fn lstm_mod linear_mod w (rnn_hidden_state h) batched_loss = Inr (next_rnn_state, lr) \<and>
     tree_map2 (HParamControllerLOPT_update_one lr) (params h) grads = Inr next_params \<and>
     h' = \<lparr>params = next_params, model_state = ms, iteration = iteration h + 1,
           rnn_hidden_state = next_rnn_state\<rparr>"
  using assms
  by (cases loss) (auto simp: HParamControllerLOPT_Opt_update_def bind_eq_Inr)

lemma HParamControllerLOPT_Opt_init_Inr:
  "HParamControllerLOPT_Opt_init theta p ms = Inr h \<longleftrightarrow>
     (\<exists>v. theta ''initial_rnn_hidden_state'' = Some v \<and>
        h = \<lparr>params = p, model_state = ms, iteration = 0, rnn_hidden_state = v\<rparr>)"
  by (auto simp: HParamControllerLOPT_Opt_init_def getitem_def bind_eq_Inr split: option.splits)

lemma HParamControllerLOPT_update_one_Leaf:
  "HParamControllerLOPT_update_one lr p (Leaf g) = jsub (Inr p) (jmul (Inr g) (Inr lr))"
  by (simp add: HParamControllerLOPT_update_one_def)

lemma HParamControllerLOPT_update_one_Inr:
  "HParamControllerLOPT_update_one lr p g = Inr z \<Longrightarrow> \<exists>a. g = Leaf a"
  by (cases g) (simp_all add: HParamControllerLOPT_update_one_def jsub_def jmul_def)

lemma reshape_Inr: "reshape a sh = Inr b \<Longrightarrow> shape b = sh \<and> elems b = elems a"
  by (auto simp: reshape_def split: if_splits)

subsection \<open>The examples, run\<close>

lemmas array_defs = scalar_def shape_attr_def zeros_like_def jexp_def jlog_def broadcast_shapes_def broadcast_to_def
  binop_def jsub_def jmul_def jadd_def reshape_def stack_def unravel_def ravel_def index_of_def
  jtranspose_def index_last_def

lemmas fixture_defs = zero_dense_def zero_mlp_def zero_lstm_def zero_linear_def full_def
  fake_params_def fake_grads_def fake_params_mlp_def fake_grads_mlp_def params_rnn_def
  fake_grads_rnn_def lopt_sgd_def lopt_mlp_def theta_mlp_def theta_rnn_def

lemmas eval_simps = getitem_def tree_map2_def tree_map3_def array_defs fixture_defs
  map_replicate_const

lemma MetaSGDWD_example:
  "MetaSGDWD_Opt_update (MetaSGDWD_init lopt_sgd k)
      \<lparr>LOptState.params = fake_params, model_state = x, iteration = i\<rparr> fake_grads ms =
   Inr \<lparr>LOptState.params =
          Node (DictNode [''a'', ''b''])
            [Leaf (full [] (991 / 1000)), Leaf (full [] (1979 / 1000))],
        model_state = ms, iteration = i + 1\<rparr>"
  by (simp add: MetaSGDWD_Opt_update_def MetaSGDWD_init_def MetaSGDWD_update_one_def eval_simps)

lemma PerParamMLP_example:
  "PerParamMLP_Opt_update zero_mlp lopt_mlp theta_mlp
      \<lparr>PerParamState.params = fake_params_mlp, model_state = x, iteration = i,
        momentums = map_pytree zeros_like fake_params_mlp\<rparr>
      fake_grads_mlp ms =
   Inr \<lparr>PerParamState.params = Node (DictNode [''a'', ''b''])
                    [Leaf (full [2, 3] (- (1 / 10))), Leaf (full [1] (- (1 / 10)))],
        model_state = ms, iteration = i + 1,
        momentums = Node (DictNode [''a'', ''b''])
                    [Leaf (full [2, 3] (- (1 / 10))), Leaf (full [1] (- (1 / 10)))]\<rparr>"
  by (simp add: PerParamMLP_Opt_update_def PerParamMLP_update_one_def update_one_momentum_def
      forward_def eval_simps)

lemma HParamControllerLOPT_example:
  "HParamControllerLOPT_Opt_update zero_lstm zero_linear theta_rnn
      \<lparr>params = params_rnn, model_state = x, iteration = i, rnn_hidden_state = ()\<rparr>
      fake_grads_rnn (Some (scalar 1)) ms =
   Inr \<lparr>params = Node (DictNode [''a'', ''b''])
                    [Leaf (full [3, 2] (101 / 100)), Leaf (full [2, 1] (101 / 100))],
        model_state = ms, iteration = i + 1, rnn_hidden_state = ()\<rparr>"
  by (simp add: HParamControllerLOPT_Opt_update_def HParamControllerLOPT_update_one_def
      forward_fn_def eval_simps)

text \<open>
  \<^verbatim>\<open>PerParamMLP\<close> on the parameters \<^verbatim>\<open>{"a": 1.0}\<close> and the gradients \<^verbatim>\<open>{"a": -1.0}\<close>, Python
  numbers: \<^verbatim>\<open>_update_one\<close> receives the parameter \<^verbatim>\<open>1.0\<close> where \<^verbatim>\<open>forward\<close> reads
  \<^verbatim>\<open>grads.shape\<close>.
\<close>

lemma PerParamMLP_python_number_example:
  "PerParamMLP_Opt_update zero_mlp lopt_mlp theta_mlp
      (PerParamMLP_Opt_init (Node (DictNode [''a'']) [Leaf (scalar 1)]) None)
      (Node (DictNode [''a'']) [Leaf (scalar (- 1))]) (None :: unit option) =
   Inl AttributeError"
  by (simp add: PerParamMLP_Opt_update_def PerParamMLP_Opt_init_def PerParamMLP_update_one_def
      update_one_momentum_def forward_def eval_simps)

lemma HParamControllerLOPT_init_example:
  "HParamControllerLOPT_Opt_init theta_rnn p ms =
   Inr \<lparr>params = p, model_state = ms, iteration = 0, rnn_hidden_state = ()\<rparr>"
  by (simp add: HParamControllerLOPT_Opt_init_def getitem_def theta_rnn_def)

section \<open>The claims\<close>

text \<open>
  C1. The inner optimizers' \<^verbatim>\<open>init\<close> returns a state whose iteration is 0, and every
  \<^verbatim>\<open>update\<close> that returns a state returns one whose iteration is the iteration of the
  state it was given plus one. The counter is a 32-bit integer, so the addition is the
  addition of \<^verbatim>\<open>int32\<close>.
\<close>

theorem iteration_counts_updates:
  "LOptState.iteration (MetaSGDWD_Opt_init p1 ms1) = 0 \<and>
   PerParamState.iteration (PerParamMLP_Opt_init p2 ms2) = 0 \<and>
   (HParamControllerLOPT_Opt_init theta_h p3 ms3 = Inr h0 \<longrightarrow> iteration h0 = 0) \<and>
   (MetaSGDWD_Opt_update theta_s s g1 ms4 = Inr s' \<longrightarrow>
      LOptState.iteration s' = LOptState.iteration s + 1) \<and>
   (PerParamMLP_Opt_update mlp parent theta_p q g2 ms5 = Inr q' \<longrightarrow>
      PerParamState.iteration q' = PerParamState.iteration q + 1) \<and>
   (HParamControllerLOPT_Opt_update lstm_mod linear_mod theta_h h g3 loss ms6 = Inr h' \<longrightarrow>
      iteration h' = iteration h + 1)"
proof (intro conjI impI)
  show "LOptState.iteration (MetaSGDWD_Opt_init p1 ms1) = 0"
    by (simp add: MetaSGDWD_Opt_init_def)
  show "PerParamState.iteration (PerParamMLP_Opt_init p2 ms2) = 0"
    by (simp add: PerParamMLP_Opt_init_def)
next
  assume "HParamControllerLOPT_Opt_init theta_h p3 ms3 = Inr h0"
  then show "iteration h0 = 0" by (auto simp: HParamControllerLOPT_Opt_init_Inr)
next
  assume "MetaSGDWD_Opt_update theta_s s g1 ms4 = Inr s'"
  from MetaSGDWD_Opt_update_Inr[OF this]
  show "LOptState.iteration s' = LOptState.iteration s + 1" by auto
next
  assume "PerParamMLP_Opt_update mlp parent theta_p q g2 ms5 = Inr q'"
  from PerParamMLP_Opt_update_Inr[OF this]
  show "PerParamState.iteration q' = PerParamState.iteration q + 1" by auto
next
  assume "HParamControllerLOPT_Opt_update lstm_mod linear_mod theta_h h g3 loss ms6 = Inr h'"
  from HParamControllerLOPT_Opt_update_Inr[OF this]
  show "iteration h' = iteration h + 1" by auto
qed

theorem iteration_counts_updates_witness:
  "HParamControllerLOPT_Opt_init theta_rnn params_rnn (None :: unit option) =
     Inr \<lparr>params = params_rnn, model_state = None, iteration = 0, rnn_hidden_state = ()\<rparr> \<and>
   MetaSGDWD_Opt_update (MetaSGDWD_init lopt_sgd ()) (MetaSGDWD_Opt_init fake_params None)
       fake_grads (None :: unit option) =
     Inr \<lparr>LOptState.params =
            Node (DictNode [''a'', ''b''])
              [Leaf (full [] (991 / 1000)), Leaf (full [] (1979 / 1000))],
          model_state = None, iteration = 0 + 1\<rparr> \<and>
   PerParamMLP_Opt_update zero_mlp lopt_mlp theta_mlp (PerParamMLP_Opt_init fake_params_mlp None)
       fake_grads_mlp (None :: unit option) =
     Inr \<lparr>PerParamState.params = Node (DictNode [''a'', ''b''])
                    [Leaf (full [2, 3] (- (1 / 10))), Leaf (full [1] (- (1 / 10)))],
          model_state = None, iteration = 0 + 1,
          momentums = Node (DictNode [''a'', ''b''])
                    [Leaf (full [2, 3] (- (1 / 10))), Leaf (full [1] (- (1 / 10)))]\<rparr> \<and>
   HParamControllerLOPT_Opt_update zero_lstm zero_linear theta_rnn
       \<lparr>params = params_rnn, model_state = None, iteration = 0, rnn_hidden_state = ()\<rparr>
       fake_grads_rnn (Some (scalar 1)) (None :: unit option) =
     Inr \<lparr>params = Node (DictNode [''a'', ''b''])
                    [Leaf (full [3, 2] (101 / 100)), Leaf (full [2, 1] (101 / 100))],
          model_state = None, iteration = 0 + 1, rnn_hidden_state = ()\<rparr>"
  using iteration_counts_updates[where theta_h = theta_rnn and ?p3.0 = params_rnn
      and ?ms3.0 = "None :: unit option"
      and theta_s = "MetaSGDWD_init lopt_sgd ()" and s = "MetaSGDWD_Opt_init fake_params None"
      and ?g1.0 = fake_grads and ?ms4.0 = "None :: unit option"
      and mlp = zero_mlp and parent = lopt_mlp and theta_p = theta_mlp
      and q = "PerParamMLP_Opt_init fake_params_mlp None" and ?g2.0 = fake_grads_mlp
      and ?ms5.0 = "None :: unit option"
      and lstm_mod = zero_lstm and linear_mod = zero_linear
      and h = "\<lparr>params = params_rnn, model_state = None :: unit option, iteration = 0,
                rnn_hidden_state = ()\<rparr>"
      and ?g3.0 = fake_grads_rnn and loss = "Some (scalar 1)" and ?ms6.0 = "None :: unit option"]
  by (simp add: MetaSGDWD_example PerParamMLP_example HParamControllerLOPT_example
      HParamControllerLOPT_init_example MetaSGDWD_Opt_init_def PerParamMLP_Opt_init_def)

text \<open>
  C2. The claim is that \<^verbatim>\<open>update\<close>, called with the state and the gradients only,
  always returns the next state. As amended: \<^verbatim>\<open>HParamControllerLOPT\<close>'s \<^verbatim>\<open>update\<close> called
  without \<^verbatim>\<open>loss\<close> raises \<^verbatim>\<open>AssertionError\<close>, whatever the state and the gradients;
  \<^verbatim>\<open>MetaSGDWD\<close>'s \<^verbatim>\<open>update\<close> returns a state when \<^verbatim>\<open>theta\<close> holds scalars under
  \<^verbatim>\<open>"log_lr"\<close> and \<^verbatim>\<open>"log_wd"\<close> and the gradients have the tree structure and the leaf
  shapes of the parameters; \<^verbatim>\<open>PerParamMLP\<close>'s \<^verbatim>\<open>update\<close> returns a state when \<^verbatim>\<open>theta\<close>
  holds weights under \<^verbatim>\<open>"nn"\<close> with which the MLP maps an input of shape \<open>[..., 3]\<close> to
  an output of shape \<open>[..., 2]\<close>, every parameter leaf is an array (not a Python number,
  which has no \<^verbatim>\<open>shape\<close>), and the gradients and the momentums have the tree structure
  and the leaf shapes of the parameters.
\<close>

theorem update_with_state_and_grads_only:
  "HParamControllerLOPT_Opt_update lstm_mod linear_mod theta_h h g3 None ms3 = Inl AssertionError \<and>
   (getitem theta_s ''log_lr'' = Inr a \<and> shape a = [] \<and>
    getitem theta_s ''log_wd'' = Inr b \<and> shape b = [] \<and>
    map_pytree shape g1 = map_pytree shape (LOptState.params s) \<longrightarrow>
      (\<exists>s'. MetaSGDWD_Opt_update theta_s s g1 None = Inr s')) \<and>
   (getitem theta_p ''nn'' = Inr w \<and>
    (\<forall>x S. shape x = S @ [3] \<longrightarrow>
       (\<exists>y. mlp [hidden_size parent, 2] w x = Inr y \<and> shape y = S @ [2])) \<and>
    list_all (\<lambda>p. \<not> py_scalar p) (tree_leaves (PerParamState.params q)) \<and>
    map_pytree shape g2 = map_pytree shape (PerParamState.params q) \<and>
    map_pytree shape (momentums q) = map_pytree shape (PerParamState.params q) \<longrightarrow>
      (\<exists>q'. PerParamMLP_Opt_update mlp parent theta_p q g2 None = Inr q'))"
proof (intro conjI impI)
  show "HParamControllerLOPT_Opt_update lstm_mod linear_mod theta_h h g3 None ms3 =
      Inl AssertionError"
    by (simp add: HParamControllerLOPT_Opt_update_def)
next
  assume "getitem theta_s ''log_lr'' = Inr a \<and> shape a = [] \<and>
    getitem theta_s ''log_wd'' = Inr b \<and> shape b = [] \<and>
    map_pytree shape g1 = map_pytree shape (LOptState.params s)"
  then show "\<exists>s'. MetaSGDWD_Opt_update theta_s s g1 None = Inr s'"
    by (intro MetaSGDWD_Opt_update_total[of theta_s a b]) simp_all
next
  assume h: "getitem theta_p ''nn'' = Inr w \<and>
    (\<forall>x S. shape x = S @ [3] \<longrightarrow>
       (\<exists>y. mlp [hidden_size parent, 2] w x = Inr y \<and> shape y = S @ [2])) \<and>
    list_all (\<lambda>p. \<not> py_scalar p) (tree_leaves (PerParamState.params q)) \<and>
    map_pytree shape g2 = map_pytree shape (PerParamState.params q) \<and>
    map_pytree shape (momentums q) = map_pytree shape (PerParamState.params q)"
  show "\<exists>q'. PerParamMLP_Opt_update mlp parent theta_p q g2 None = Inr q'"
    by (rule PerParamMLP_Opt_update_total[where w = w and mlp = mlp]) (use h in auto)
qed

theorem update_with_state_and_grads_only_witness:
  "getitem (MetaSGDWD_init lopt_sgd ()) ''log_lr'' = Inr (jlog (scalar (1 / 1000))) \<and>
   shape (jlog (scalar (1 / 1000))) = [] \<and>
   getitem (MetaSGDWD_init lopt_sgd ()) ''log_wd'' = Inr (jlog (scalar (1 / 100))) \<and>
   shape (jlog (scalar (1 / 100))) = [] \<and>
   map_pytree shape fake_grads = map_pytree shape fake_params \<and>
   (\<exists>s'. MetaSGDWD_Opt_update (MetaSGDWD_init lopt_sgd ())
            (MetaSGDWD_Opt_init fake_params (None :: unit option)) fake_grads None = Inr s') \<and>
   getitem theta_mlp ''nn'' = Inr () \<and>
   (\<forall>x. zero_mlp [hidden_size lopt_mlp, 2] () x = Inr (zero_dense 2 x) \<and>
        shape (zero_dense 2 x) = butlast (shape x) @ [2]) \<and>
   list_all (\<lambda>p. \<not> py_scalar p) (tree_leaves fake_params_mlp) \<and>
   map_pytree shape fake_grads_mlp = map_pytree shape fake_params_mlp \<and>
   map_pytree shape (momentums (PerParamMLP_Opt_init fake_params_mlp (None :: unit option))) =
     map_pytree shape fake_params_mlp \<and>
   (\<exists>q'. PerParamMLP_Opt_update zero_mlp lopt_mlp theta_mlp
            (PerParamMLP_Opt_init fake_params_mlp (None :: unit option)) fake_grads_mlp None =
          Inr q')"
proof -
  have z: "\<forall>x. zero_mlp [hidden_size lopt_mlp, 2] () x = Inr (zero_dense 2 x) \<and>
        shape (zero_dense 2 x) = butlast (shape x) @ [2]"
    by (simp add: zero_mlp_def zero_dense_def)
  then have m: "\<forall>x S. shape x = S @ [3] \<longrightarrow>
       (\<exists>y. zero_mlp [hidden_size lopt_mlp, 2] () x = Inr y \<and> shape y = S @ [2])"
    by simp
  have sh: "map_pytree shape fake_grads = map_pytree shape fake_params"
    "map_pytree shape fake_grads_mlp = map_pytree shape fake_params_mlp"
    "map_pytree shape (momentums (PerParamMLP_Opt_init fake_params_mlp (None :: unit option))) =
     map_pytree shape fake_params_mlp"
    by (simp_all add: fixture_defs scalar_def PerParamMLP_Opt_init_def zeros_like_def)
  have ar: "list_all (\<lambda>p. \<not> py_scalar p) (tree_leaves fake_params_mlp)"
    by (simp add: fixture_defs)
  have th: "getitem (MetaSGDWD_init lopt_sgd ()) ''log_lr'' = Inr (jlog (scalar (1 / 1000)))"
    "shape (jlog (scalar (1 / 1000))) = []"
    "getitem (MetaSGDWD_init lopt_sgd ()) ''log_wd'' = Inr (jlog (scalar (1 / 100)))"
    "shape (jlog (scalar (1 / 100))) = []"
    "getitem theta_mlp ''nn'' = Inr ()"
    by (simp_all add: getitem_def MetaSGDWD_init_def lopt_sgd_def theta_mlp_def jlog_def scalar_def)
  note T = update_with_state_and_grads_only[where theta_s = "MetaSGDWD_init lopt_sgd ()"
      and a = "jlog (scalar (1 / 1000))" and b = "jlog (scalar (1 / 100))"
      and ?g1.0 = fake_grads and s = "MetaSGDWD_Opt_init fake_params (None :: unit option)"
      and theta_p = theta_mlp and w = "()" and mlp = zero_mlp and parent = lopt_mlp
      and ?g2.0 = fake_grads_mlp
      and q = "PerParamMLP_Opt_init fake_params_mlp (None :: unit option)"
      and lstm_mod = zero_lstm and linear_mod = zero_linear and theta_h = theta_rnn
      and h = "\<lparr>params = params_rnn, model_state = None :: unit option, iteration = 0,
                rnn_hidden_state = ()\<rparr>"
      and ?g3.0 = fake_grads_rnn and ?ms3.0 = "None :: unit option"]
  from T th(1-4) sh(1)
  have e1: "\<exists>s'. MetaSGDWD_Opt_update (MetaSGDWD_init lopt_sgd ())
            (MetaSGDWD_Opt_init fake_params (None :: unit option)) fake_grads None = Inr s'"
    by (simp add: MetaSGDWD_Opt_init_def)
  from T th(5) m ar sh(2,3)
  have e2: "\<exists>q'. PerParamMLP_Opt_update zero_mlp lopt_mlp theta_mlp
            (PerParamMLP_Opt_init fake_params_mlp (None :: unit option)) fake_grads_mlp None =
          Inr q'"
    by (simp add: PerParamMLP_Opt_init_def)
  from th sh ar z e1 e2 show ?thesis by (intro conjI)
qed

text \<open>
  The notebook's own call of \<^verbatim>\<open>HParamControllerLOPT\<close>, with \<^verbatim>\<open>loss=1.0\<close> left out: the
  assertion fails.
\<close>

theorem update_without_loss_counterexample:
  "HParamControllerLOPT_Opt_update zero_lstm zero_linear theta_rnn
       \<lparr>params = params_rnn, model_state = None, iteration = 0, rnn_hidden_state = ()\<rparr>
       fake_grads_rnn None (None :: unit option) = Inl AssertionError"
  by (simp add: HParamControllerLOPT_Opt_update_def)

text \<open>
  C3. The claim is that each of the three state dataclasses has an extra field beyond
  \<^verbatim>\<open>params\<close>, \<^verbatim>\<open>model_state\<close> and \<^verbatim>\<open>iteration\<close>. As amended: \<^verbatim>\<open>LOptState\<close> has exactly
  these three fields, \<^verbatim>\<open>PerParamState\<close> has them and \<^verbatim>\<open>momentums\<close>,
  \<^verbatim>\<open>HParamControllerInnerOptState\<close> has them and \<^verbatim>\<open>rnn_hidden_state\<close>.
\<close>

theorem state_fields:
  "LOptState_fields = common_fields \<and>
   PerParamState_fields = common_fields @ [''momentums''] \<and>
   HParamControllerInnerOptState_fields = common_fields @ [''rnn_hidden_state''] \<and>
   extra_fields LOptState_fields = [] \<and>
   extra_fields PerParamState_fields = [''momentums''] \<and>
   extra_fields HParamControllerInnerOptState_fields = [''rnn_hidden_state'']"
  by (simp add: extra_fields_def LOptState_fields_def PerParamState_fields_def
      HParamControllerInnerOptState_fields_def common_fields_def)

text \<open>\<^verbatim>\<open>LOptState\<close>, the state of \<^verbatim>\<open>MetaSGDWD\<close>, has no field beyond the three.\<close>

theorem LOptState_fields_counterexample:
  "extra_fields LOptState_fields = []"
  by (simp add: extra_fields_def LOptState_fields_def common_fields_def)

text \<open>
  C4. When \<^verbatim>\<open>MetaSGDWD\<close>'s \<^verbatim>\<open>update\<close> returns a state, the gradients have the tree
  structure of the parameters, so have the new parameters, and every new parameter leaf
  is \<^verbatim>\<open>p - g * exp(theta["log_lr"]) - p * exp(theta["log_wd"])\<close> of the old leaf \<open>p\<close> and
  the gradient leaf \<open>g\<close> at its position. The new parameters (or the exception) are the
  same from any state with these parameters and for any \<^verbatim>\<open>model_state\<close> argument.
\<close>

theorem MetaSGDWD_update_arithmetic:
  "(MetaSGDWD_Opt_update theta s grads ms = Inr s' \<longrightarrow>
      tree_structure grads = tree_structure (LOptState.params s) \<and>
      tree_structure (LOptState.params s') = tree_structure (LOptState.params s) \<and>
      map Inr (tree_leaves (LOptState.params s')) =
        map2 (\<lambda>p g. jsub (jsub (Inr p) (jmul (Inr g) (map_sum id jexp (getitem theta ''log_lr''))))
                          (jmul (Inr p) (map_sum id jexp (getitem theta ''log_wd''))))
          (tree_leaves (LOptState.params s)) (tree_leaves grads)) \<and>
   map_sum id LOptState.params (MetaSGDWD_Opt_update theta s grads ms) =
   map_sum id LOptState.params
     (MetaSGDWD_Opt_update theta
        \<lparr>LOptState.params = LOptState.params s, model_state = x, iteration = i\<rparr> grads ms')"
proof (intro conjI impI)
  assume "MetaSGDWD_Opt_update theta s grads ms = Inr s'"
  from MetaSGDWD_Opt_update_Inr[OF this] obtain log_lr log_wd next_params where
    lr: "getitem theta ''log_lr'' = Inr log_lr" and wd: "getitem theta ''log_wd'' = Inr log_wd"
    and tm: "tree_map2 (MetaSGDWD_update_one (jexp log_lr) (jexp log_wd)) (LOptState.params s) grads
       = Inr next_params"
    and s': "LOptState.params s' = next_params"
    by auto
  note r = tree_map2_Inr[OF tm MetaSGDWD_update_one_Inr]
  from r show "tree_structure grads = tree_structure (LOptState.params s)" by simp
  from r s' show "tree_structure (LOptState.params s') = tree_structure (LOptState.params s)"
    by simp
  from r s' lr wd show "map Inr (tree_leaves (LOptState.params s')) =
        map2 (\<lambda>p g. jsub (jsub (Inr p) (jmul (Inr g) (map_sum id jexp (getitem theta ''log_lr''))))
                          (jmul (Inr p) (map_sum id jexp (getitem theta ''log_wd''))))
          (tree_leaves (LOptState.params s)) (tree_leaves grads)"
    by (simp add: MetaSGDWD_update_one_Leaf)
next
  show "map_sum id LOptState.params (MetaSGDWD_Opt_update theta s grads ms) =
   map_sum id LOptState.params
     (MetaSGDWD_Opt_update theta
        \<lparr>LOptState.params = LOptState.params s, model_state = x, iteration = i\<rparr> grads ms')"
    by (simp add: MetaSGDWD_Opt_update_def map_sum_bind)
qed

theorem MetaSGDWD_update_arithmetic_witness:
  "MetaSGDWD_Opt_update (MetaSGDWD_init lopt_sgd ()) (MetaSGDWD_Opt_init fake_params None)
       fake_grads (None :: unit option) =
     Inr \<lparr>LOptState.params =
            Node (DictNode [''a'', ''b''])
              [Leaf (full [] (991 / 1000)), Leaf (full [] (1979 / 1000))],
          model_state = None, iteration = 1\<rparr> \<and>
   tree_structure fake_grads = tree_structure fake_params \<and>
   [Inr (full [] (991 / 1000)), Inr (full [] (1979 / 1000))] =
     map2 (\<lambda>p g. jsub (jsub (Inr p)
                     (jmul (Inr g) (map_sum id jexp (getitem (MetaSGDWD_init lopt_sgd ()) ''log_lr''))))
                     (jmul (Inr p) (map_sum id jexp (getitem (MetaSGDWD_init lopt_sgd ()) ''log_wd''))))
       (tree_leaves fake_params) (tree_leaves fake_grads)"
  using MetaSGDWD_update_arithmetic[where theta = "MetaSGDWD_init lopt_sgd ()"
      and s = "MetaSGDWD_Opt_init fake_params None" and grads = fake_grads
      and ms = "None :: unit option"
      and s' = "\<lparr>LOptState.params =
            Node (DictNode [''a'', ''b''])
              [Leaf (full [] (991 / 1000)), Leaf (full [] (1979 / 1000))],
          model_state = None, iteration = 1\<rparr>"]
  by (simp add: MetaSGDWD_example MetaSGDWD_Opt_init_def)

text \<open>
  C5. \<^verbatim>\<open>init\<close> stores its \<^verbatim>\<open>model_state\<close> argument in the state it returns, and
  \<^verbatim>\<open>update\<close> stores its own \<^verbatim>\<open>model_state\<close> argument (\<^verbatim>\<open>None\<close> when left out) in the
  state it returns; the \<^verbatim>\<open>model_state\<close> of the state given to \<^verbatim>\<open>update\<close> changes nothing
  in what \<^verbatim>\<open>update\<close> returns. This holds for the three optimizers.
\<close>

theorem model_state_passes_through:
  "LOptState.model_state (MetaSGDWD_Opt_init p1 ms1) = ms1 \<and>
   PerParamState.model_state (PerParamMLP_Opt_init p2 ms2) = ms2 \<and>
   (HParamControllerLOPT_Opt_init theta_h p3 ms3 = Inr h0 \<longrightarrow> model_state h0 = ms3) \<and>
   (MetaSGDWD_Opt_update theta_s s g1 ms4 = Inr s' \<longrightarrow> LOptState.model_state s' = ms4) \<and>
   (PerParamMLP_Opt_update mlp parent theta_p q g2 ms5 = Inr q' \<longrightarrow>
      PerParamState.model_state q' = ms5) \<and>
   (HParamControllerLOPT_Opt_update lstm_mod linear_mod theta_h h g3 loss ms6 = Inr h' \<longrightarrow>
      model_state h' = ms6) \<and>
   MetaSGDWD_Opt_update theta_s (s\<lparr>LOptState.model_state := x1\<rparr>) g1 ms4 =
     MetaSGDWD_Opt_update theta_s s g1 ms4 \<and>
   PerParamMLP_Opt_update mlp parent theta_p (q\<lparr>PerParamState.model_state := x2\<rparr>) g2 ms5 =
     PerParamMLP_Opt_update mlp parent theta_p q g2 ms5 \<and>
   HParamControllerLOPT_Opt_update lstm_mod linear_mod theta_h (h\<lparr>model_state := x3\<rparr>) g3 loss ms6 =
     HParamControllerLOPT_Opt_update lstm_mod linear_mod theta_h h g3 loss ms6"
proof (intro conjI impI)
  show "LOptState.model_state (MetaSGDWD_Opt_init p1 ms1) = ms1"
    by (simp add: MetaSGDWD_Opt_init_def)
  show "PerParamState.model_state (PerParamMLP_Opt_init p2 ms2) = ms2"
    by (simp add: PerParamMLP_Opt_init_def)
  show "MetaSGDWD_Opt_update theta_s (s\<lparr>LOptState.model_state := x1\<rparr>) g1 ms4 =
     MetaSGDWD_Opt_update theta_s s g1 ms4"
    by (simp add: MetaSGDWD_Opt_update_def)
  show "PerParamMLP_Opt_update mlp parent theta_p (q\<lparr>PerParamState.model_state := x2\<rparr>) g2 ms5 =
     PerParamMLP_Opt_update mlp parent theta_p q g2 ms5"
    by (simp add: PerParamMLP_Opt_update_def)
  show "HParamControllerLOPT_Opt_update lstm_mod linear_mod theta_h (h\<lparr>model_state := x3\<rparr>) g3 loss ms6 =
     HParamControllerLOPT_Opt_update lstm_mod linear_mod theta_h h g3 loss ms6"
    by (cases loss) (simp_all add: HParamControllerLOPT_Opt_update_def)
next
  assume "HParamControllerLOPT_Opt_init theta_h p3 ms3 = Inr h0"
  then show "model_state h0 = ms3" by (auto simp: HParamControllerLOPT_Opt_init_Inr)
next
  assume "MetaSGDWD_Opt_update theta_s s g1 ms4 = Inr s'"
  from MetaSGDWD_Opt_update_Inr[OF this] show "LOptState.model_state s' = ms4" by auto
next
  assume "PerParamMLP_Opt_update mlp parent theta_p q g2 ms5 = Inr q'"
  from PerParamMLP_Opt_update_Inr[OF this] show "PerParamState.model_state q' = ms5" by auto
next
  assume "HParamControllerLOPT_Opt_update lstm_mod linear_mod theta_h h g3 loss ms6 = Inr h'"
  from HParamControllerLOPT_Opt_update_Inr[OF this] show "model_state h' = ms6" by auto
qed

theorem model_state_passes_through_witness:
  "HParamControllerLOPT_Opt_init theta_rnn params_rnn (Some (7 :: nat)) =
     Inr \<lparr>params = params_rnn, model_state = Some 7, iteration = 0, rnn_hidden_state = ()\<rparr> \<and>
   MetaSGDWD_Opt_update (MetaSGDWD_init lopt_sgd ()) (MetaSGDWD_Opt_init fake_params (Some 7))
       fake_grads (None :: nat option) =
     Inr \<lparr>LOptState.params =
            Node (DictNode [''a'', ''b''])
              [Leaf (full [] (991 / 1000)), Leaf (full [] (1979 / 1000))],
          model_state = None, iteration = 1\<rparr> \<and>
   PerParamMLP_Opt_update zero_mlp lopt_mlp theta_mlp
       (PerParamMLP_Opt_init fake_params_mlp (Some 7)) fake_grads_mlp (None :: nat option) =
     Inr \<lparr>PerParamState.params = Node (DictNode [''a'', ''b''])
                    [Leaf (full [2, 3] (- (1 / 10))), Leaf (full [1] (- (1 / 10)))],
          model_state = None, iteration = 1,
          momentums = Node (DictNode [''a'', ''b''])
                    [Leaf (full [2, 3] (- (1 / 10))), Leaf (full [1] (- (1 / 10)))]\<rparr> \<and>
   HParamControllerLOPT_Opt_update zero_lstm zero_linear theta_rnn
       \<lparr>params = params_rnn, model_state = Some 7, iteration = 0, rnn_hidden_state = ()\<rparr>
       fake_grads_rnn (Some (scalar 1)) (None :: nat option) =
     Inr \<lparr>params = Node (DictNode [''a'', ''b''])
                    [Leaf (full [3, 2] (101 / 100)), Leaf (full [2, 1] (101 / 100))],
          model_state = None, iteration = 1, rnn_hidden_state = ()\<rparr>"
  using model_state_passes_through[where theta_h = theta_rnn and ?p3.0 = params_rnn
      and ?ms3.0 = "Some (7 :: nat)"
      and theta_s = "MetaSGDWD_init lopt_sgd ()"
      and s = "MetaSGDWD_Opt_init fake_params (Some (7 :: nat))"
      and ?g1.0 = fake_grads and ?ms4.0 = "None :: nat option"
      and mlp = zero_mlp and parent = lopt_mlp and theta_p = theta_mlp
      and q = "PerParamMLP_Opt_init fake_params_mlp (Some (7 :: nat))" and ?g2.0 = fake_grads_mlp
      and ?ms5.0 = "None :: nat option"
      and lstm_mod = zero_lstm and linear_mod = zero_linear
      and h = "\<lparr>params = params_rnn, model_state = Some (7 :: nat), iteration = 0,
                rnn_hidden_state = ()\<rparr>"
      and ?g3.0 = fake_grads_rnn and loss = "Some (scalar 1)" and ?ms6.0 = "None :: nat option"]
  by (simp add: MetaSGDWD_example PerParamMLP_example HParamControllerLOPT_example
      HParamControllerLOPT_init_example MetaSGDWD_Opt_init_def PerParamMLP_Opt_init_def)

text \<open>
  C6. The claim is that \<^verbatim>\<open>PerParamMLP\<close>'s \<^verbatim>\<open>update\<close> sets each parameter leaf to
  \<^verbatim>\<open>p - net(theta, g, m', p)\<close>, with \<open>p\<close> the old parameter, \<open>g\<close> the gradient and
  \<open>m'\<close> the new momentum. The code is run on a parameter \<open>[1]\<close>, a gradient \<open>[-1]\<close> and
  the momentum \<open>[0]\<close> of \<^verbatim>\<open>init\<close>, with a network of zero weights, whose step is \<open>[0]\<close>:
  the new momentum is \<open>[-0.1]\<close> and the new parameter is \<open>[-0.1]\<close>, the new momentum,
  where the claimed \<^verbatim>\<open>p - net(theta, g, m', p)\<close> is \<open>[1]\<close>.
\<close>

theorem PerParamMLP_update_swaps_arguments:
  "PerParamMLP_Opt_update zero_mlp lopt_mlp theta_mlp
       (PerParamMLP_Opt_init (Leaf (full [1] 1)) None) (Leaf (full [1] (- 1)))
       (None :: unit option) =
     Inr \<lparr>PerParamState.params = Leaf (full [1] (- (1 / 10))), model_state = None,
          iteration = 1, momentums = Leaf (full [1] (- (1 / 10)))\<rparr> \<and>
   jsub (Inr (full [1] 1))
     (forward zero_mlp lopt_mlp () (full [1] (- 1)) (Leaf (full [1] (- (1 / 10))))
        (Leaf (full [1] 1))) =
     Inr (full [1] 1)"
  by (simp add: PerParamMLP_Opt_update_def PerParamMLP_Opt_init_def PerParamMLP_update_one_def
      update_one_momentum_def forward_def eval_simps)

text \<open>
  C7. When \<^verbatim>\<open>HParamControllerLOPT\<close>'s \<^verbatim>\<open>update\<close> returns a state, a loss was given; the
  LSTM ran once on the loss reshaped to \<open>[1, 1]\<close> and the stored \<^verbatim>\<open>rnn_hidden_state\<close>; the
  learning rate is \<^verbatim>\<open>exp(linear(output)) * 0.01\<close>; every new parameter leaf is
  \<^verbatim>\<open>p - g * lr\<close> with this one learning rate; and the LSTM's next state is the
  \<^verbatim>\<open>rnn_hidden_state\<close> of the returned state.
\<close>

theorem HParamControllerLOPT_update_step:
  assumes "HParamControllerLOPT_Opt_update lstm_mod linear_mod theta h grads loss ms = Inr h'"
  shows "\<exists>l batched_loss w output next_state log_lr lr.
     loss = Some l \<and> reshape l [1, 1] = Inr batched_loss \<and>
     shape batched_loss = [1, 1] \<and> elems batched_loss = elems l \<and>
     getitem theta ''rnn_params'' = Inr w \<and>
     lstm_mod 128 w batched_loss (rnn_hidden_state h) = Inr (output, next_state) \<and>
     linear_mod 1 w output = Inr log_lr \<and>
     jmul (Inr (jexp log_lr)) (Inr (scalar (1 / 100))) = Inr lr \<and>
     rnn_hidden_state h' = next_state \<and>
     tree_structure (params h') = tree_structure (params h) \<and>
     map Inr (tree_leaves (params h')) =
       map2 (\<lambda>p g. jsub (Inr p) (jmul (Inr g) (Inr lr)))
         (tree_leaves (params h)) (tree_leaves grads)"
proof -
  from HParamControllerLOPT_Opt_update_Inr[OF assms] obtain l batched_loss w next_rnn_state lr
    next_params where l: "loss = Some l" and bl: "reshape l [1, 1] = Inr batched_loss"
    and w: "getitem theta ''rnn_params'' = Inr w"
    and fw: "forward_fn lstm_mod linear_mod w (rnn_hidden_state h) batched_loss
               = Inr (next_rnn_state, lr)"
    and tm: "tree_map2 (HParamControllerLOPT_update_one lr) (params h) grads = Inr next_params"
    and h': "h' = \<lparr>params = next_params, model_state = ms, iteration = iteration h + 1,
           rnn_hidden_state = next_rnn_state\<rparr>"
    by blast
  from fw obtain out log_lr where
    lstm: "lstm_mod 128 w batched_loss (rnn_hidden_state h) = Inr (out, next_rnn_state)"
    and lin: "linear_mod 1 w out = Inr log_lr"
    and lr: "jmul (Inr (jexp log_lr)) (Inr (scalar (1 / 100))) = Inr lr"
    by (auto simp: forward_fn_def bind_eq_Inr simp del: jop_Inr)
  note r = tree_map2_Inr[OF tm HParamControllerLOPT_update_one_Inr]
  from r h' have leaves: "map Inr (tree_leaves (params h')) =
       map2 (\<lambda>p g. jsub (Inr p) (jmul (Inr g) (Inr lr)))
         (tree_leaves (params h)) (tree_leaves grads)"
    by (simp add: HParamControllerLOPT_update_one_Leaf del: jop_Inr)
  from r h' have str: "tree_structure (params h') = tree_structure (params h)" by simp
  from h' have hid: "rnn_hidden_state h' = next_rnn_state" by simp
  from reshape_Inr[OF bl] l bl w lstm lin lr hid str leaves show ?thesis by blast
qed

theorem HParamControllerLOPT_update_step_witness:
  "HParamControllerLOPT_Opt_update zero_lstm zero_linear theta_rnn
       \<lparr>params = params_rnn, model_state = None, iteration = 0, rnn_hidden_state = ()\<rparr>
       fake_grads_rnn (Some (scalar 1)) (None :: unit option) =
     Inr \<lparr>params = Node (DictNode [''a'', ''b''])
                    [Leaf (full [3, 2] (101 / 100)), Leaf (full [2, 1] (101 / 100))],
          model_state = None, iteration = 1, rnn_hidden_state = ()\<rparr> \<and>
   (\<exists>l batched_loss w output next_state log_lr lr.
     Some (scalar 1) = Some l \<and> reshape l [1, 1] = Inr batched_loss \<and>
     shape batched_loss = [1, 1] \<and> elems batched_loss = elems l \<and>
     getitem theta_rnn ''rnn_params'' = Inr w \<and>
     zero_lstm 128 w batched_loss () = Inr (output, next_state) \<and>
     zero_linear 1 w output = Inr log_lr \<and>
     jmul (Inr (jexp log_lr)) (Inr (scalar (1 / 100))) = Inr lr \<and>
     () = next_state \<and>
     tree_structure (Node (DictNode [''a'', ''b''])
                    [Leaf (full [3, 2] (101 / 100)), Leaf (full [2, 1] (101 / 100))])
       = tree_structure params_rnn \<and>
     map Inr (tree_leaves (Node (DictNode [''a'', ''b''])
                    [Leaf (full [3, 2] (101 / 100)), Leaf (full [2, 1] (101 / 100))])) =
       map2 (\<lambda>p g. jsub (Inr p) (jmul (Inr g) (Inr lr)))
         (tree_leaves params_rnn) (tree_leaves fake_grads_rnn))"
proof -
  have e: "HParamControllerLOPT_Opt_update zero_lstm zero_linear theta_rnn
       \<lparr>params = params_rnn, model_state = None, iteration = 0, rnn_hidden_state = ()\<rparr>
       fake_grads_rnn (Some (scalar 1)) (None :: unit option) =
     Inr \<lparr>params = Node (DictNode [''a'', ''b''])
                    [Leaf (full [3, 2] (101 / 100)), Leaf (full [2, 1] (101 / 100))],
          model_state = None, iteration = 1, rnn_hidden_state = ()\<rparr>"
    using HParamControllerLOPT_example[of None 0 None] by simp
  from HParamControllerLOPT_update_step[OF e] e show ?thesis by simp
qed

text \<open>
  C8. \<^verbatim>\<open>MetaSGDWD.init\<close> returns the same \<^verbatim>\<open>theta\<close> for any two keys: the dictionary of
  \<^verbatim>\<open>log(initial_lr)\<close> under \<^verbatim>\<open>"log_lr"\<close> and \<^verbatim>\<open>log(initial_wd)\<close> under \<^verbatim>\<open>"log_wd"\<close>, as
  zero-dimensional arrays.
\<close>

theorem MetaSGDWD_init_ignores_key:
  "MetaSGDWD_init self k1 = MetaSGDWD_init self k2 \<and>
   MetaSGDWD_init self k1 =
     [''log_lr'' \<mapsto> \<lparr>shape = [], elems = [ln (initial_lr self)], py_scalar = False\<rparr>,
      ''log_wd'' \<mapsto> \<lparr>shape = [], elems = [ln (initial_wd self)], py_scalar = False\<rparr>]"
  by (simp add: MetaSGDWD_init_def jlog_def scalar_def)

text \<open>
  C9. \<^verbatim>\<open>PerParamMLP\<close>'s inner \<^verbatim>\<open>init\<close> returns the given parameters unchanged, and
  momentums of the same tree structure whose leaves are arrays, have the shapes of the
  parameter leaves at their positions and hold zeros only.
\<close>

theorem PerParamMLP_init_zero_momentums:
  "PerParamState.params (PerParamMLP_Opt_init p ms) = p \<and>
   tree_structure (momentums (PerParamMLP_Opt_init p ms)) = tree_structure p \<and>
   list_all2 (\<lambda>m a. \<not> py_scalar m \<and> shape m = shape a \<and>
                length (elems m) = prod_list (shape a) \<and> list_all (\<lambda>x. x = 0) (elems m))
     (tree_leaves (momentums (PerParamMLP_Opt_init p ms))) (tree_leaves p)"
  by (simp add: PerParamMLP_Opt_init_def tree_structure_map tree_leaves_map list_all2_map1
      zeros_like_def list_all2_same list_all_length)

text \<open>
  C10. \<^verbatim>\<open>HParamControllerLOPT\<close>'s inner \<^verbatim>\<open>init\<close> returns, when \<^verbatim>\<open>theta\<close> has the key
  \<^verbatim>\<open>"initial_rnn_hidden_state"\<close>, the state whose \<^verbatim>\<open>rnn_hidden_state\<close> is the value under
  that key and whose parameters are the given ones; and whenever it returns a state, the
  state is of this form.
\<close>

theorem HParamControllerLOPT_init_copies_rnn_state:
  "(theta ''initial_rnn_hidden_state'' = Some v \<longrightarrow>
      HParamControllerLOPT_Opt_init theta p ms =
        Inr \<lparr>params = p, model_state = ms, iteration = 0, rnn_hidden_state = v\<rparr>) \<and>
   (HParamControllerLOPT_Opt_init theta p ms = Inr h \<longrightarrow>
      getitem theta ''initial_rnn_hidden_state'' = Inr (rnn_hidden_state h) \<and> params h = p)"
  by (auto simp: HParamControllerLOPT_Opt_init_Inr getitem_def)

theorem HParamControllerLOPT_init_copies_rnn_state_witness:
  "theta_rnn ''initial_rnn_hidden_state'' = Some () \<and>
   HParamControllerLOPT_Opt_init theta_rnn params_rnn (None :: unit option) =
     Inr \<lparr>params = params_rnn, model_state = None, iteration = 0, rnn_hidden_state = ()\<rparr> \<and>
   getitem theta_rnn ''initial_rnn_hidden_state'' = Inr ()"
  using HParamControllerLOPT_init_copies_rnn_state[where theta = theta_rnn and v = "()"
      and p = params_rnn and ms = "None :: unit option"
      and h = "\<lparr>params = params_rnn, model_state = None, iteration = 0, rnn_hidden_state = ()\<rparr>"]
  by (simp add: theta_rnn_def)

end
